theory Spec2Isabelle
  imports Main "HOL-Library.Multiset"
begin

section \<open>JavaScript values and exceptions\<close>

text \<open>
  The fields of \<open>req.body\<close> are untyped in the source. The model keeps the
  JavaScript value kinds that decide truthiness; numbers are integers here (a
  fractional number is truthy like any other non-zero number).
\<close>

datatype jsval = JUndefined | JNull | JBool bool | JNum int | JStr string

text \<open>JavaScript truthiness, as tested by \<open>!x\<close> and \<open>if (x)\<close>.\<close>

fun truthy :: "jsval \<Rightarrow> bool" where
  "truthy JUndefined = False"
| "truthy JNull = False"
| "truthy (JBool b) = b"
| "truthy (JNum n) = (n \<noteq> 0)"
| "truthy (JStr s) = (s \<noteq> [])"

text \<open>
  A thrown value: an \<open>Error\<close> object with its message, or anything else.
\<close>

datatype thrown = ErrorObj string | OtherValue

text \<open>\<open>error instanceof Error ? error.message : 'Unknown error'\<close>\<close>

fun error_message :: "thrown \<Rightarrow> string" where
  "error_message (ErrorObj m) = m"
| "error_message OtherValue = ''Unknown error''"

text \<open>
  The results of \<open>parseFloat\<close> and \<open>parseInt\<close> are doubles. They are stored
  unevaluated: the row records which parse was applied to which input.
\<close>

datatype js_number = ParseFloat jsval | ParseInt jsval

section \<open>String operations used for the storage key\<close>

text \<open>\<open>s.split(sep)\<close> with a one-character separator: never the empty array.\<close>

fun js_split :: "char \<Rightarrow> string \<Rightarrow> string list" where
  "js_split sep [] = [] # []"
| "js_split sep (c # cs) =
     (if c = sep then [] # js_split sep cs
      else (case js_split sep cs of
              [] \<Rightarrow> [c] # []
            | w # ws \<Rightarrow> (c # w) # ws))"

text \<open>\<open>xs.pop()\<close>: the last element, \<open>undefined\<close> (None) on the empty array.\<close>

definition pop :: "'a list \<Rightarrow> 'a option" where
  "pop xs = (case rev xs of [] \<Rightarrow> None | x # _ \<Rightarrow> Some x)"

text \<open>
  \<open>imageUrl.split('/').pop()?.split('.')[0]\<close>: the last path segment, cut at its
  first dot. None stands for \<open>undefined\<close>.
\<close>

definition publicId_of :: "string \<Rightarrow> string option" where
  "publicId_of url =
     (case pop (js_split CHR ''/'' url) of
        None \<Rightarrow> None
      | Some seg \<Rightarrow> (case js_split CHR ''.'' seg of [] \<Rightarrow> None | x # _ \<Rightarrow> Some x))"

section \<open>Base64 and the data URI of an uploaded file\<close>

definition b64_alphabet :: string where
  "b64_alphabet = ''ABCDEFGHIJKLMNOPQRSTUVWXYZabcdefghijklmnopqrstuvwxyz0123456789+/''"

definition b64_digit :: "nat \<Rightarrow> char" where
  "b64_digit n = b64_alphabet ! (n mod 64)"

text \<open>\<open>Buffer.toString('base64')\<close> on a list of byte values.\<close>

fun base64 :: "nat list \<Rightarrow> string" where
  "base64 [] = []"
| "base64 [a] =
     [b64_digit (a div 4), b64_digit ((a mod 4) * 16), CHR ''='', CHR ''='']"
| "base64 [a, b] =
     [b64_digit (a div 4), b64_digit ((a mod 4) * 16 + b div 16),
      b64_digit ((b mod 16) * 4), CHR ''='']"
| "base64 (a # b # c # rest) =
     [b64_digit (a div 4), b64_digit ((a mod 4) * 16 + b div 16),
      b64_digit ((b mod 16) * 4 + c div 64), b64_digit (c mod 64)] @ base64 rest"

text \<open>
  The file object that the multipart middleware attaches to the request. With
  memory storage \<open>buffer\<close> is present and \<open>path\<close> is not.
\<close>

record upload_file =
  mimetype :: string
  buffer :: "string option"
  path :: "string option"

text \<open>\<open>`data:${req.file.mimetype};base64,${b64}`\<close>\<close>

definition dataURI :: "string \<Rightarrow> string \<Rightarrow> string" where
  "dataURI mime bytes = ''data:'' @ mime @ '';base64,'' @ base64 (map of_char bytes)"

section \<open>The database\<close>

text \<open>
  Rows of the tables \<open>Products\<close> and \<open>ProductCategory\<close> of the Prisma schema, and the
  implicit join table \<open>_ProductCategoryToProducts\<close>, whose rows are pairs
  (categoryId, productId). Timestamps are milliseconds since the epoch.
\<close>

record product_row =
  productId :: string
  name :: string
  price :: js_number
  stockQuantity :: js_number
  imageUrl :: "string option"
  createdAt :: int
  updatedAt :: int

record category_row =
  categoryId :: string
  categoryName :: string
  description :: "string option"
  categoryCreatedAt :: int
  categoryUpdatedAt :: int

record database =
  Products :: "product_row list"
  ProductCategory :: "category_row list"
  ProductCategoryToProducts :: "(string \<times> string) list"

text \<open>A product with \<open>include: { categories: true }\<close>; a category with its products.\<close>

record product_json = product_row +
  categories :: "category_row list"

record category_json = category_row +
  products :: "product_row list"

text \<open>The key constraints of the schema: primary keys and the join table's foreign keys.\<close>

definition wf_db :: "database \<Rightarrow> bool" where
  "wf_db db \<longleftrightarrow>
     distinct (map productId (Products db)) \<and>
     distinct (map categoryId (ProductCategory db)) \<and>
     distinct (ProductCategoryToProducts db) \<and>
     list_all (\<lambda>(c, p). c \<in> set (map categoryId (ProductCategory db)) \<and>
                        p \<in> set (map productId (Products db)))
       (ProductCategoryToProducts db)"

section \<open>The outside world of one request\<close>

text \<open>Every call a handler makes to the media host or to the ORM client.\<close>

datatype call =
    CloudinaryUpload "string option"
  | CloudinaryDestroy string
  | PrismaFindUnique string
  | PrismaCreate
  | PrismaUpdate string
  | PrismaDelete string
  | PrismaFindMany

text \<open>
  The environment fixes what the outside world answers during one request: the clock
  (\<open>now\<close>, milliseconds since the epoch), the rules of the local time zone
  (\<open>LocalTZA t True\<close> is the offset in milliseconds in force at the instant \<open>t\<close>,
  \<open>LocalTZA t False\<close> the offset that applies to the local time value \<open>t\<close>), the
  media host (\<open>cloudinary_upload\<close> resolves to the \<open>secure_url\<close> or rejects,
  \<open>cloudinary_destroy\<close> resolves or rejects), and \<open>db_fault\<close>, which makes an ORM
  call reject for a reason outside the modelled tables (connection loss, a value the
  ORM refuses, a foreign key from \<open>Sales\<close> or \<open>Purchases\<close>).
\<close>

record env =
  now :: int
  LocalTZA :: "int \<Rightarrow> bool \<Rightarrow> int"
  cloudinary_upload :: "string option \<Rightarrow> thrown + string"
  cloudinary_destroy :: "string \<Rightarrow> thrown + unit"
  db_fault :: "call \<Rightarrow> thrown option"

section \<open>Requests and responses\<close>

text \<open>
  What a handler reads of the request: the route parameter, the fields of \<open>req.body\<close>
  (absent fields are \<open>undefined\<close>) and \<open>req.file\<close>. A response is the status code
  and the JSON body; \<open>res.json\<close> without \<open>res.status\<close> sends 200.
\<close>

record request =
  params_productId :: string
  body_productId :: jsval
  body_name :: jsval
  body_price :: jsval
  body_stockQuantity :: jsval
  body_categoryId :: jsval
  req_file :: "upload_file option"

datatype body =
    Message string
  | MessageError string string
  | MissingFields string "string list"
  | ProductJson product_json
  | CategoriesJson "category_json list"
  | ExpressError string

record response =
  status :: nat
  json :: body

section \<open>ORM operations\<close>

text \<open>
  The calls the handlers make to the ORM client, as functions on the tables: each
  either rejects (\<open>Inl\<close>) or resolves (\<open>Inr\<close>), a write resolving with the new
  database. A handler runs alone on the database from its first call to its last.
\<close>

definition categories_of :: "database \<Rightarrow> string \<Rightarrow> category_row list" where
  "categories_of db pid =
     filter (\<lambda>c. (categoryId c, pid) \<in> set (ProductCategoryToProducts db)) (ProductCategory db)"

definition products_of :: "database \<Rightarrow> string \<Rightarrow> product_row list" where
  "products_of db cid =
     filter (\<lambda>p. (cid, productId p) \<in> set (ProductCategoryToProducts db)) (Products db)"

text \<open>\<open>prisma.products.findUnique({ where: { productId } })\<close>\<close>

definition prisma_products_findUnique :: "env \<Rightarrow> database \<Rightarrow> string \<Rightarrow> thrown + product_row option" where
  "prisma_products_findUnique e db pid =
     (case db_fault e (PrismaFindUnique pid) of
        Some err \<Rightarrow> Inl err
      | None \<Rightarrow> Inr (find (\<lambda>p. productId p = pid) (Products db)))"

text \<open>
  \<open>prisma.products.delete({ where: { productId } })\<close>: rejects when the row is
  absent; the join rows of the product go with it (ON DELETE CASCADE).
\<close>

definition prisma_products_delete :: "env \<Rightarrow> database \<Rightarrow> string \<Rightarrow> thrown + database" where
  "prisma_products_delete e db pid =
     (case db_fault e (PrismaDelete pid) of
        Some err \<Rightarrow> Inl err
      | None \<Rightarrow>
          if pid \<notin> set (map productId (Products db))
          then Inl (ErrorObj ''Record to delete does not exist.'')
          else Inr (db\<lparr>Products := filter (\<lambda>p. productId p \<noteq> pid) (Products db),
                       ProductCategoryToProducts :=
                         filter (\<lambda>(c, p). p \<noteq> pid) (ProductCategoryToProducts db)\<rparr>))"

text \<open>The row as returned with \<open>include: { categories: true }\<close>.\<close>

definition with_categories :: "database \<Rightarrow> product_row \<Rightarrow> product_json" where
  "with_categories db row =
     \<lparr>productId = productId row, name = name row, price = price row,
      stockQuantity = stockQuantity row, imageUrl = imageUrl row,
      createdAt = createdAt row, updatedAt = updatedAt row,
      categories = categories_of db (productId row)\<rparr>"

text \<open>
  \<open>prisma.products.create({ data: { productId, name, price, stockQuantity, imageUrl,
  categories: { connect: { categoryId } } }, include: { categories: true } })\<close>.
  The string columns need strings; the primary key must be new; the category to
  connect must exist. \<open>createdAt\<close> defaults to the current time.
\<close>

definition prisma_products_create ::
  "env \<Rightarrow> database \<Rightarrow> jsval \<Rightarrow> jsval \<Rightarrow> js_number \<Rightarrow> js_number \<Rightarrow> string option \<Rightarrow> jsval
     \<Rightarrow> thrown + (product_json \<times> database)" where
  "prisma_products_create e db pidv namev pr sq img cidv =
     (case db_fault e PrismaCreate of
        Some err \<Rightarrow> Inl err
      | None \<Rightarrow>
          (case (pidv, namev, cidv) of
             (JStr pid, JStr nm, JStr cid) \<Rightarrow>
               if pid \<in> set (map productId (Products db))
               then Inl (ErrorObj ''Unique constraint failed on the fields: (productId)'')
               else if cid \<notin> set (map categoryId (ProductCategory db))
               then Inl (ErrorObj ''No ProductCategory record was found for a connect.'')
               else
                 let row = \<lparr>productId = pid, name = nm, price = pr, stockQuantity = sq,
                            imageUrl = img, createdAt = now e, updatedAt = now e\<rparr>;
                     db' = db\<lparr>Products := Products db @ [row],
                              ProductCategoryToProducts :=
                                ProductCategoryToProducts db @ [(cid, pid)]\<rparr>
                 in Inr (with_categories db' row, db')
           | _ \<Rightarrow> Inl (ErrorObj ''Invalid prisma.products.create() invocation'')))"

text \<open>
  \<open>prisma.products.update({ where: { productId }, data: { name, price, stockQuantity,
  imageUrl, categories: { set: [], connect: { categoryId } } }, include: { categories:
  true } })\<close>. An \<open>undefined\<close> name leaves the column as it is (\<open>updated_name\<close>);
  \<open>set: []\<close> removes every join row of the product, then \<open>connect\<close> adds the one
  for \<open>categoryId\<close>.
\<close>

definition updated_name :: "jsval \<Rightarrow> string \<Rightarrow> string option" where
  "updated_name namev old =
     (case namev of JUndefined \<Rightarrow> Some old | JStr nm \<Rightarrow> Some nm | _ \<Rightarrow> None)"

definition prisma_products_update ::
  "env \<Rightarrow> database \<Rightarrow> string \<Rightarrow> jsval \<Rightarrow> js_number \<Rightarrow> js_number \<Rightarrow> string option \<Rightarrow> jsval
     \<Rightarrow> thrown + (product_json \<times> database)" where
  "prisma_products_update e db pid namev pr sq img cidv =
     (case db_fault e (PrismaUpdate pid) of
        Some err \<Rightarrow> Inl err
      | None \<Rightarrow>
          (case cidv of
             JStr cid \<Rightarrow>
               (case find (\<lambda>p. productId p = pid) (Products db) of
                  None \<Rightarrow> Inl (ErrorObj ''Record to update not found.'')
                | Some old \<Rightarrow>
                    (case updated_name namev (name old) of
                       None \<Rightarrow> Inl (ErrorObj ''Invalid prisma.products.update() invocation'')
                     | Some nm \<Rightarrow>
                         if cid \<notin> set (map categoryId (ProductCategory db))
                         then Inl (ErrorObj ''No ProductCategory record was found for a connect.'')
                         else
                           let row = old\<lparr>name := nm, price := pr, stockQuantity := sq,
                                         imageUrl := img, updatedAt := now e\<rparr>;
                               db' = db\<lparr>Products :=
                                          map (\<lambda>p. if productId p = pid then row else p)
                                            (Products db),
                                        ProductCategoryToProducts :=
                                          filter (\<lambda>(c, p). p \<noteq> pid)
                                            (ProductCategoryToProducts db) @ [(cid, pid)]\<rparr>
                           in Inr (with_categories db' row, db')))
           | _ \<Rightarrow> Inl (ErrorObj ''Invalid prisma.products.update() invocation'')))"

section \<open>createProduct\<close>

text \<open>The validation of required fields, in the order of the source.\<close>

definition missingFields_of :: "request \<Rightarrow> string list" where
  "missingFields_of req =
     (if \<not> truthy (body_name req) then [''name''] else []) @
     (if \<not> truthy (body_price req) then [''price''] else []) @
     (if \<not> truthy (body_stockQuantity req) then [''stockQuantity''] else []) @
     (if \<not> truthy (body_categoryId req) then [''categoryId''] else []) @
     (if req_file req = None then [''image''] else [])"

text \<open>The database write and the 201 response; a rejection goes to the outer catch.\<close>

definition create_row ::
  "env \<Rightarrow> database \<Rightarrow> request \<Rightarrow> string option \<Rightarrow> call list \<Rightarrow> response \<times> database \<times> call list" where
  "create_row e db req img cs =
     (case prisma_products_create e db (body_productId req) (body_name req)
             (ParseFloat (body_price req)) (ParseInt (body_stockQuantity req)) img
             (body_categoryId req) of
        Inl error \<Rightarrow>
          (\<lparr>status = 500, json = MessageError ''Server error'' (error_message error)\<rparr>,
           db, cs @ [PrismaCreate])
      | Inr (product, db') \<Rightarrow>
          (\<lparr>status = 201, json = ProductJson product\<rparr>, db', cs @ [PrismaCreate]))"

definition createProduct :: "env \<Rightarrow> database \<Rightarrow> request \<Rightarrow> response \<times> database \<times> call list" where
  "createProduct e db req =
     (let missingFields = missingFields_of req in
      if length missingFields > 0
      then (\<lparr>status = 400, json = MissingFields ''Missing required fields'' missingFields\<rparr>,
            db, [])
      else
        (case req_file req of
           None \<Rightarrow> create_row e db req None []
         | Some f \<Rightarrow>
             (case buffer f of
                None \<Rightarrow>
                  (\<lparr>status = 500, json = MessageError ''Error uploading image''
                      (error_message (ErrorObj ''The first argument must be of type string or an instance of Buffer, ArrayBuffer, or Array or an Array-like Object. Received undefined''))\<rparr>,
                   db, [])
              | Some bytes \<Rightarrow>
                  let uri = dataURI (mimetype f) bytes in
                  (case cloudinary_upload e (Some uri) of
                     Inl uploadError \<Rightarrow>
                       (\<lparr>status = 500, json = MessageError ''Error uploading image''
                           (error_message uploadError)\<rparr>,
                        db, [CloudinaryUpload (Some uri)])
                   | Inr secure_url \<Rightarrow>
                       create_row e db req (Some secure_url) [CloudinaryUpload (Some uri)]))))"

section \<open>updateProduct and deleteProduct\<close>

text \<open>
  The block both handlers run on the stored image: if the row has an image URL and a
  storage key can be derived from it, \<open>cloudinary.uploader.destroy\<close> is awaited on
  \<open>products/\<close> followed by the key. The result is the outcome of the block and the
  calls it made.
\<close>

definition destroy_old_image :: "env \<Rightarrow> product_row \<Rightarrow> (thrown + unit) \<times> call list" where
  "destroy_old_image e product =
     (case imageUrl product of
        None \<Rightarrow> (Inr (), [])
      | Some url \<Rightarrow>
          if url = [] then (Inr (), [])
          else
            (case publicId_of url of
               None \<Rightarrow> (Inr (), [])
             | Some publicId \<Rightarrow>
                 if publicId = [] then (Inr (), [])
                 else (cloudinary_destroy e (''products/'' @ publicId),
                       [CloudinaryDestroy (''products/'' @ publicId)])))"

text \<open>The database update and the 200 response; a rejection goes to the outer catch.\<close>

definition update_row ::
  "env \<Rightarrow> database \<Rightarrow> request \<Rightarrow> string \<Rightarrow> string option \<Rightarrow> call list
     \<Rightarrow> response \<times> database \<times> call list" where
  "update_row e db req pid img cs =
     (case prisma_products_update e db pid (body_name req)
             (ParseFloat (body_price req)) (ParseInt (body_stockQuantity req)) img
             (body_categoryId req) of
        Inl error \<Rightarrow>
          (\<lparr>status = 500, json = Message ''Error updating product''\<rparr>, db,
           cs @ [PrismaUpdate pid])
      | Inr (updatedProduct, db') \<Rightarrow>
          (\<lparr>status = 200, json = ProductJson updatedProduct\<rparr>, db', cs @ [PrismaUpdate pid]))"

definition updateProduct :: "env \<Rightarrow> database \<Rightarrow> request \<Rightarrow> response \<times> database \<times> call list" where
  "updateProduct e db req =
     (let pid = params_productId req in
      case prisma_products_findUnique e db pid of
        Inl error \<Rightarrow>
          (\<lparr>status = 500, json = Message ''Error updating product''\<rparr>, db,
           [PrismaFindUnique pid])
      | Inr None \<Rightarrow>
          (\<lparr>status = 404, json = Message ''Product not found''\<rparr>, db, [PrismaFindUnique pid])
      | Inr (Some existingProduct) \<Rightarrow>
          (case req_file req of
             None \<Rightarrow> update_row e db req pid (imageUrl existingProduct) [PrismaFindUnique pid]
           | Some f \<Rightarrow>
               (case destroy_old_image e existingProduct of
                  (Inl error, cs) \<Rightarrow>
                    (\<lparr>status = 500, json = Message ''Error handling image update''\<rparr>, db,
                     PrismaFindUnique pid # cs)
                | (Inr u, cs) \<Rightarrow>
                    (case cloudinary_upload e (path f) of
                       Inl error \<Rightarrow>
                         (\<lparr>status = 500, json = Message ''Error handling image update''\<rparr>,
                          db, PrismaFindUnique pid # cs @ [CloudinaryUpload (path f)])
                     | Inr secure_url \<Rightarrow>
                         update_row e db req pid (Some secure_url)
                           (PrismaFindUnique pid # cs @ [CloudinaryUpload (path f)])))))"

text \<open>The database delete and the 200 response; a rejection goes to the outer catch.\<close>

definition delete_row ::
  "env \<Rightarrow> database \<Rightarrow> string \<Rightarrow> call list \<Rightarrow> response \<times> database \<times> call list" where
  "delete_row e db pid cs =
     (case prisma_products_delete e db pid of
        Inl error \<Rightarrow>
          (\<lparr>status = 500, json = Message ''Error deleting product''\<rparr>, db,
           cs @ [PrismaDelete pid])
      | Inr db' \<Rightarrow>
          (\<lparr>status = 200, json = Message ''Product deleted successfully''\<rparr>, db',
           cs @ [PrismaDelete pid]))"

text \<open>
  In \<open>deleteProduct\<close> the image block sits in a try of its own whose catch only logs:
  both outcomes continue with the database delete.
\<close>

definition deleteProduct :: "env \<Rightarrow> database \<Rightarrow> request \<Rightarrow> response \<times> database \<times> call list" where
  "deleteProduct e db req =
     (let pid = params_productId req in
      case prisma_products_findUnique e db pid of
        Inl error \<Rightarrow>
          (\<lparr>status = 500, json = Message ''Error deleting product''\<rparr>, db,
           [PrismaFindUnique pid])
      | Inr None \<Rightarrow>
          (\<lparr>status = 404, json = Message ''Product not found''\<rparr>, db, [PrismaFindUnique pid])
      | Inr (Some product) \<Rightarrow>
          (case destroy_old_image e product of
             (Inl error, cs) \<Rightarrow> delete_row e db pid (PrismaFindUnique pid # cs)
           | (Inr u, cs) \<Rightarrow> delete_row e db pid (PrismaFindUnique pid # cs)))"

section \<open>getNewArrivals\<close>

text \<open>
  Time values and calendar arithmetic of the \<open>Date\<close> object, as ECMAScript defines
  them: a time value is a number of milliseconds since 1970-01-01T00:00:00Z, years
  follow the proleptic Gregorian calendar, months are numbered from 0. The time values
  met here are far inside the range that \<open>TimeClip\<close> accepts.
\<close>

definition msPerDay :: int where
  "msPerDay = 86400000"

definition Day :: "int \<Rightarrow> int" where
  "Day t = t div msPerDay"

definition TimeWithinDay :: "int \<Rightarrow> int" where
  "TimeWithinDay t = t mod msPerDay"

definition DaysInYear :: "int \<Rightarrow> int" where
  "DaysInYear y =
     (if y mod 4 \<noteq> 0 then 365
      else if y mod 100 \<noteq> 0 then 366
      else if y mod 400 \<noteq> 0 then 365
      else 366)"

definition DayFromYear :: "int \<Rightarrow> int" where
  "DayFromYear y =
     365 * (y - 1970) + (y - 1969) div 4 - (y - 1901) div 100 + (y - 1601) div 400"

text \<open>
  \<open>YearFromTime t\<close> is the largest year \<open>y\<close> whose first day is not after \<open>t\<close>.
  \<open>year_search\<close> walks to it from an estimate, a year at a time.
\<close>

function year_search :: "int \<Rightarrow> int \<Rightarrow> int" where
  "year_search y d =
     (if DayFromYear (y + 1) \<le> d then year_search (y + 1) d
      else if d < DayFromYear y then year_search (y - 1) d
      else y)"
  by pat_completeness auto
termination
proof (relation "measure (\<lambda>(y, d). nat (if d < DayFromYear y then DayFromYear y - d + 366
                                             else d - DayFromYear y))")
  have q: "a div n \<le> (a + 1) div n \<and> (a + 1) div n \<le> a div n + 1" if "0 < n" for a n :: int
  proof
    show "a div n \<le> (a + 1) div n"
      by (rule zdiv_mono1) (use that in simp_all)
    have "(a + 1) div n \<le> (a + n) div n"
      by (rule zdiv_mono1) (use that in simp_all)
    also have "(a + n) div n = a div n + 1"
    proof -
      from that have "n \<noteq> 0" by simp
      then show ?thesis by (rule div_add_self2)
    qed
    finally show "(a + 1) div n \<le> a div n + 1" .
  qed
  have step: "DayFromYear y + 364 \<le> DayFromYear (y + 1) \<and> DayFromYear (y + 1) \<le> DayFromYear y + 367"
    for y
  proof -
    have e: "DayFromYear (y + 1) =
          365 * (y - 1970) + 365 + (y - 1969 + 1) div 4 - (y - 1901 + 1) div 100
            + (y - 1601 + 1) div 400"
      by (simp add: DayFromYear_def)
    show ?thesis
      unfolding e
      using q [of 4 "y - 1969"] q [of 100 "y - 1901"] q [of 400 "y - 1601"]
      by (simp add: DayFromYear_def)
  qed
  let ?R = "measure (\<lambda>(y, d). nat (if d < DayFromYear y then DayFromYear y - d + 366
                                             else d - DayFromYear y))"
  show "wf ?R" by simp
  show "((y + 1, d), (y, d)) \<in> ?R" if "DayFromYear (y + 1) \<le> d" for y d
    using that step [of y] by simp
  show "((y - 1, d), (y, d)) \<in> ?R" if "\<not> DayFromYear (y + 1) \<le> d" "d < DayFromYear y" for y d
    using that step [of "y - 1"] by simp
qed

definition YearFromTime :: "int \<Rightarrow> int" where
  "YearFromTime t = year_search (1970 + Day t div 365) (Day t)"

definition DayWithinYear :: "int \<Rightarrow> int" where
  "DayWithinYear t = Day t - DayFromYear (YearFromTime t)"

definition InLeapYear :: "int \<Rightarrow> int" where
  "InLeapYear t = (if DaysInYear (YearFromTime t) = 366 then 1 else 0)"

text \<open>The number of days of a year before its month \<open>m\<close>; \<open>leap\<close> is 1 in a leap year.\<close>

definition month_start :: "int \<Rightarrow> int \<Rightarrow> int" where
  "month_start m leap =
     (if m = 0 then 0 else if m = 1 then 31 else if m = 2 then 59 + leap
      else if m = 3 then 90 + leap else if m = 4 then 120 + leap
      else if m = 5 then 151 + leap else if m = 6 then 181 + leap
      else if m = 7 then 212 + leap else if m = 8 then 243 + leap
      else if m = 9 then 273 + leap else if m = 10 then 304 + leap
      else 334 + leap)"

definition MonthFromTime :: "int \<Rightarrow> int" where
  "MonthFromTime t =
     (let d = DayWithinYear t; leap = InLeapYear t in
      if d < 31 then 0 else if d < 59 + leap then 1 else if d < 90 + leap then 2
      else if d < 120 + leap then 3 else if d < 151 + leap then 4
      else if d < 181 + leap then 5 else if d < 212 + leap then 6
      else if d < 243 + leap then 7 else if d < 273 + leap then 8
      else if d < 304 + leap then 9 else if d < 334 + leap then 10
      else 11)"

definition DateFromTime :: "int \<Rightarrow> int" where
  "DateFromTime t = DayWithinYear t - month_start (MonthFromTime t) (InLeapYear t) + 1"

text \<open>
  \<open>MakeDay year month date\<close>: the day number of the first of the month, months
  beyond the year carried into the year, plus \<open>date - 1\<close>; a date past the end of
  the month runs on into the next month.
\<close>

definition MakeDay :: "int \<Rightarrow> int \<Rightarrow> int \<Rightarrow> int" where
  "MakeDay year month date =
     (let ym = year + month div 12; mn = month mod 12
      in DayFromYear ym + month_start mn (if DaysInYear ym = 366 then 1 else 0) + date - 1)"

definition MakeDate :: "int \<Rightarrow> int \<Rightarrow> int" where
  "MakeDate day time = day * msPerDay + time"

definition LocalTime :: "env \<Rightarrow> int \<Rightarrow> int" where
  "LocalTime e t = t + LocalTZA e t True"

definition UTC :: "env \<Rightarrow> int \<Rightarrow> int" where
  "UTC e t = t - LocalTZA e t False"

text \<open>\<open>d.getMonth()\<close> and the time value after \<open>d.setMonth(month)\<close>.\<close>

definition getMonth :: "env \<Rightarrow> int \<Rightarrow> int" where
  "getMonth e t = MonthFromTime (LocalTime e t)"

definition setMonth :: "env \<Rightarrow> int \<Rightarrow> int \<Rightarrow> int" where
  "setMonth e t month =
     (let lt = LocalTime e t;
          newDate = MakeDate (MakeDay (YearFromTime lt) month (DateFromTime lt))
                      (TimeWithinDay lt)
      in UTC e newDate)"

text \<open>\<open>const twoMonthsAgo = new Date(); twoMonthsAgo.setMonth(twoMonthsAgo.getMonth() - 2)\<close>\<close>

definition twoMonthsAgo :: "env \<Rightarrow> int" where
  "twoMonthsAgo e = setMonth e (now e) (getMonth e (now e) - 2)"



definition with_products :: "category_row \<Rightarrow> product_row list \<Rightarrow> category_json" where
  "with_products c ps =
     \<lparr>categoryId = categoryId c, categoryName = categoryName c, description = description c,
      categoryCreatedAt = categoryCreatedAt c, categoryUpdatedAt = categoryUpdatedAt c,
      products = ps\<rparr>"

text \<open>
  \<open>prisma.productCategory.findMany({ include: { products: { where, orderBy: { createdAt:
  'desc' } } }, where: { products: { some } } })\<close>: the categories with some product
  satisfying \<open>where_some\<close>, each with those of its products that satisfy
  \<open>include_where\<close>, latest first.
\<close>

definition prisma_productCategory_findMany ::
  "env \<Rightarrow> database \<Rightarrow> (product_row \<Rightarrow> bool) \<Rightarrow> (product_row \<Rightarrow> bool) \<Rightarrow> thrown + category_json list" where
  "prisma_productCategory_findMany e db include_where where_some =
     (case db_fault e PrismaFindMany of
        Some err \<Rightarrow> Inl err
      | None \<Rightarrow>
          Inr (map (\<lambda>c. with_products c
                          (sort_key (\<lambda>p. - createdAt p)
                             (filter include_where (products_of db (categoryId c)))))
                 (filter (\<lambda>c. list_ex where_some (products_of db (categoryId c)))
                    (ProductCategory db))))"

definition getNewArrivals :: "env \<Rightarrow> database \<Rightarrow> response \<times> database \<times> call list" where
  "getNewArrivals e db =
     (let cutoff = twoMonthsAgo e in
      case prisma_productCategory_findMany e db
             (\<lambda>p. cutoff \<le> createdAt p) (\<lambda>p. cutoff \<le> createdAt p) of
        Inl error \<Rightarrow>
          (\<lparr>status = 500, json = MessageError ''Error retrieving new arrivals''
              (error_message error)\<rparr>, db, [PrismaFindMany])
      | Inr newArrivals \<Rightarrow>
          let filteredCategories = filter (\<lambda>category. length (products category) > 0) newArrivals
          in (\<lparr>status = 200, json = CategoriesJson filteredCategories\<rparr>, db, [PrismaFindMany]))"

text \<open>The same handler with the filter after the query left out.\<close>

definition getNewArrivals_without_filter :: "env \<Rightarrow> database \<Rightarrow> response \<times> database \<times> call list" where
  "getNewArrivals_without_filter e db =
     (let cutoff = twoMonthsAgo e in
      case prisma_productCategory_findMany e db
             (\<lambda>p. cutoff \<le> createdAt p) (\<lambda>p. cutoff \<le> createdAt p) of
        Inl error \<Rightarrow>
          (\<lparr>status = 500, json = MessageError ''Error retrieving new arrivals''
              (error_message error)\<rparr>, db, [PrismaFindMany])
      | Inr newArrivals \<Rightarrow>
          (\<lparr>status = 200, json = CategoriesJson newArrivals\<rparr>, db, [PrismaFindMany]))"

section \<open>The router\<close>

text \<open>
  A request as it arrives: the route parameter, the parsed body fields, and the file
  part of a multipart payload if there is one (field name, size in bytes, file).
  The request object handed to the first middleware has no \<open>file\<close> property.
\<close>

record incoming =
  in_productId :: string
  in_body_productId :: jsval
  in_body_name :: jsval
  in_body_price :: jsval
  in_body_stockQuantity :: jsval
  in_body_categoryId :: jsval
  in_file_part :: "(string \<times> nat \<times> upload_file) option"

definition express_request :: "incoming \<Rightarrow> request" where
  "express_request i =
     \<lparr>params_productId = in_productId i, body_productId = in_body_productId i,
      body_name = in_body_name i, body_price = in_body_price i,
      body_stockQuantity = in_body_stockQuantity i, body_categoryId = in_body_categoryId i,
      req_file = None\<rparr>"

text \<open>\<open>fileFilter\<close>: images only.\<close>

definition fileFilter :: "upload_file \<Rightarrow> thrown + unit" where
  "fileFilter f =
     (if take 6 (mimetype f) \<noteq> ''image/''
      then Inl (ErrorObj ''Only image files are allowed!'')
      else Inr ())"

text \<open>
  \<open>upload.single(field)\<close>: the multipart middleware (memory storage; a file that
  reaches the limit of 5MB is refused). It is the only place that sets \<open>req.file\<close>.
\<close>

definition upload_single :: "string \<Rightarrow> incoming \<Rightarrow> request \<Rightarrow> thrown + request" where
  "upload_single field i req =
     (case in_file_part i of
        None \<Rightarrow> Inr req
      | Some (fieldname, nbytes, f) \<Rightarrow>
          if fieldname \<noteq> field then Inl (ErrorObj ''Unexpected field'')
          else (case fileFilter f of
                  Inl err \<Rightarrow> Inl err
                | Inr u \<Rightarrow>
                    if nbytes \<ge> 5 * 1024 * 1024 then Inl (ErrorObj ''File too large'')
                    else Inr (req\<lparr>req_file := Some f\<rparr>)))"

text \<open>\<open>router.post("/", upload.single('image'), createProduct)\<close>\<close>

definition router_post :: "env \<Rightarrow> database \<Rightarrow> incoming \<Rightarrow> response \<times> database \<times> call list" where
  "router_post e db i =
     (case upload_single ''image'' i (express_request i) of
        Inl err \<Rightarrow> (\<lparr>status = 500, json = ExpressError (error_message err)\<rparr>, db, [])
      | Inr req \<Rightarrow> createProduct e db req)"

text \<open>\<open>router.put('/products/:productId', updateProduct)\<close>\<close>

definition router_put :: "env \<Rightarrow> database \<Rightarrow> incoming \<Rightarrow> response \<times> database \<times> call list" where
  "router_put e db i = updateProduct e db (express_request i)"

text \<open>\<open>router.delete('/products/:productId', deleteProduct)\<close>\<close>

definition router_delete :: "env \<Rightarrow> database \<Rightarrow> incoming \<Rightarrow> response \<times> database \<times> call list" where
  "router_delete e db i = deleteProduct e db (express_request i)"

text \<open>The calls that go to the media host.\<close>

definition media_call :: "call \<Rightarrow> bool" where
  "media_call c = (case c of CloudinaryUpload src \<Rightarrow> True | CloudinaryDestroy k \<Rightarrow> True | _ \<Rightarrow> False)"

section \<open>Example data\<close>

definition example_category :: "string \<Rightarrow> category_row" where
  "example_category cid =
     \<lparr>categoryId = cid, categoryName = ''shelf'', description = None,
      categoryCreatedAt = 0, categoryUpdatedAt = 0\<rparr>"

definition example_product :: "string \<Rightarrow> string option \<Rightarrow> int \<Rightarrow> product_row" where
  "example_product pid img t =
     \<lparr>productId = pid, name = ''item'', price = ParseFloat (JStr ''9.5''),
      stockQuantity = ParseInt (JStr ''3''), imageUrl = img, createdAt = t, updatedAt = t\<rparr>"

text \<open>
  Three products (p2 is older than two months at the time of \<open>example_env\<close>), three
  categories (c3 is empty), p1 in two categories.
\<close>

definition example_db :: database where
  "example_db =
     \<lparr>Products =
        [example_product ''p1'' (Some ''https://h/v1/products/abc.jpg'') 1790000000000,
         example_product ''p2'' None 1700000000000,
         example_product ''p3'' None 1791000000000],
      ProductCategory = [example_category ''c1'', example_category ''c2'', example_category ''c3''],
      ProductCategoryToProducts =
        [(''c1'', ''p1''), (''c2'', ''p1''), (''c2'', ''p2''), (''c1'', ''p3'')]\<rparr>"

text \<open>2026-11-02T00:00:00Z, local time is UTC; every outside call succeeds.\<close>

definition example_env :: env where
  "example_env =
     \<lparr>now = 1793577600000, LocalTZA = (\<lambda>t isUTC. 0),
      cloudinary_upload = (\<lambda>src. Inr ''https://h/v2/products/new.png''),
      cloudinary_destroy = (\<lambda>k. Inr ()),
      db_fault = (\<lambda>c. None)\<rparr>"

definition example_file :: upload_file where
  "example_file = \<lparr>mimetype = ''image/png'', buffer = Some ''Man'', path = None\<rparr>"

definition example_request :: request where
  "example_request =
     \<lparr>params_productId = ''p1'', body_productId = JStr ''p9'', body_name = JStr ''cap'',
      body_price = JStr ''12.5'', body_stockQuantity = JStr ''4'', body_categoryId = JStr ''c2'',
      req_file = Some example_file\<rparr>"

definition example_incoming :: incoming where
  "example_incoming =
     \<lparr>in_productId = ''p1'', in_body_productId = JUndefined, in_body_name = JStr ''cap'',
      in_body_price = JStr ''12.5'', in_body_stockQuantity = JStr ''4'',
      in_body_categoryId = JStr ''c3'',
      in_file_part = Some (''image'', 3, example_file)\<rparr>"

text \<open>The same world with a media host that rejects every deletion.\<close>

definition destroy_rejecting_env :: env where
  "destroy_rejecting_env =
     example_env\<lparr>cloudinary_destroy := (\<lambda>k. Inl (ErrorObj ''timeout''))\<rparr>"

text \<open>
  An update of p2, which has no stored image, carrying a new file (as disk storage
  would attach it, with a path).
\<close>

definition no_image_update_request :: request where
  "no_image_update_request =
     \<lparr>params_productId = ''p2'', body_productId = JUndefined, body_name = JStr ''cap'',
      body_price = JStr ''12.5'', body_stockQuantity = JStr ''4'', body_categoryId = JStr ''c2'',
      req_file = Some \<lparr>mimetype = ''image/png'', buffer = None, path = Some ''/tmp/new.png''\<rparr>\<rparr>"

text \<open>
  The same clock in a zone with daylight saving time: the rules of New York (America/New York)
  for 2026 (UTC-4 from 8 March 07:00Z to 1 November 06:00Z, UTC-5 otherwise).
\<close>

definition new_york_env :: env where
  "new_york_env =
     example_env\<lparr>LocalTZA :=
       (\<lambda>t isUTC.
          if isUTC
          then (if 1772953200000 \<le> t \<and> t < 1793512800000 then - 14400000 else - 18000000)
          else (if 1772938800000 \<le> t \<and> t < 1793494800000 then - 14400000 else - 18000000))\<rparr>"


section \<open>Facts about the storage key\<close>

lemma js_split_not_Nil: "js_split sep s \<noteq> []"
  by (induction s) (auto split: list.splits)

lemma js_split_append:
  "js_split sep (a @ sep # b) = js_split sep a @ js_split sep b"
proof (induction a)
  case Nil
  show ?case by simp
next
  case (Cons c a)
  obtain w ws where "js_split sep a = w # ws"
    using js_split_not_Nil [of sep a] by (cases "js_split sep a") auto
  with Cons show ?case by simp
qed

lemma js_split_no_sep: "sep \<notin> set s \<Longrightarrow> js_split sep s = [s]"
  by (induction s) auto

lemma pop_snoc: "pop (xs @ [x]) = Some x"
  by (simp add: pop_def)

lemma publicId_of_defined: "\<exists>k. publicId_of url = Some k"
proof -
  obtain seg where "pop (js_split CHR ''/'' url) = Some seg"
    using js_split_not_Nil [of "CHR ''/''" url]
    by (cases "rev (js_split CHR ''/'' url)") (auto simp: pop_def)
  moreover obtain x xs where "js_split CHR ''.'' seg = x # xs"
    using js_split_not_Nil [of "CHR ''.''" seg] by (cases "js_split CHR ''.'' seg") auto
  ultimately show ?thesis by (simp add: publicId_of_def)
qed

lemma publicId_of_base_ext:
  assumes "CHR ''/'' \<notin> set base" "CHR ''.'' \<notin> set base" "CHR ''/'' \<notin> set ext"
  shows "publicId_of (dir @ ''/'' @ base @ ''.'' @ ext) = Some base"
proof -
  have seg: "CHR ''/'' \<notin> set (base @ ''.'' @ ext)" using assms by simp
  have "js_split CHR ''/'' (dir @ CHR ''/'' # (base @ ''.'' @ ext))
          = js_split CHR ''/'' dir @ [base @ ''.'' @ ext]"
    using js_split_no_sep [OF seg] by (simp only: js_split_append)
  then have "pop (js_split CHR ''/'' (dir @ ''/'' @ base @ ''.'' @ ext)) = Some (base @ ''.'' @ ext)"
    by (simp add: pop_snoc)
  moreover have "js_split CHR ''.'' (base @ CHR ''.'' # ext) = [base] @ js_split CHR ''.'' ext"
    using js_split_no_sep [OF assms(2)] by (simp only: js_split_append)
  ultimately show ?thesis by (simp add: publicId_of_def)
qed

section \<open>createProduct: validation and upload failure\<close>

text \<open>
  Claim C1. A create request that passes the field validation and whose upload is
  rejected by the media host gets status 500 with the message \<open>Error uploading image\<close>;
  the handler returns before \<open>prisma.products.create\<close>: the database is unchanged and
  the only outside call is the upload.
\<close>

theorem C1_upload_failure_aborts_create:
  assumes "missingFields_of req = []"
    and "req_file req = Some f"
    and "buffer f = Some bytes"
    and "cloudinary_upload e (Some (dataURI (mimetype f) bytes)) = Inl uploadError"
  shows "createProduct e db req =
           (\<lparr>status = 500,
             json = MessageError ''Error uploading image'' (error_message uploadError)\<rparr>,
            db, [CloudinaryUpload (Some (dataURI (mimetype f) bytes))])
         \<and> PrismaCreate \<notin> set (snd (snd (createProduct e db req)))"
  using assms by (simp add: createProduct_def)

theorem C1_witness:
  "createProduct (example_env\<lparr>cloudinary_upload := (\<lambda>src. Inl (ErrorObj ''timeout''))\<rparr>)
       example_db example_request =
     (\<lparr>status = 500, json = MessageError ''Error uploading image'' ''timeout''\<rparr>,
      example_db, [CloudinaryUpload (Some (dataURI ''image/png'' ''Man''))])"
  using C1_upload_failure_aborts_create
    [of example_request example_file "''Man''"
        "example_env\<lparr>cloudinary_upload := (\<lambda>src. Inl (ErrorObj ''timeout''))\<rparr>"
        "ErrorObj ''timeout''" example_db]
  by (simp add: missingFields_of_def example_request_def example_file_def)

text \<open>
  Claim C4. When any of name, price, stockQuantity, categoryId (falsy) or the image
  file (absent) is missing, the response is 400 and its \<open>missingFields\<close> list holds
  exactly the names of the missing ones, each once; nothing is uploaded and the
  database is unchanged.
\<close>

theorem C4_missing_fields:
  assumes "\<not> truthy (body_name req) \<or> \<not> truthy (body_price req) \<or>
           \<not> truthy (body_stockQuantity req) \<or> \<not> truthy (body_categoryId req) \<or>
           req_file req = None"
  shows "\<exists>missing.
           createProduct e db req =
             (\<lparr>status = 400, json = MissingFields ''Missing required fields'' missing\<rparr>, db, [])
           \<and> distinct missing
           \<and> set missing \<subseteq> {''name'', ''price'', ''stockQuantity'', ''categoryId'', ''image''}
           \<and> (''name'' \<in> set missing \<longleftrightarrow> \<not> truthy (body_name req))
           \<and> (''price'' \<in> set missing \<longleftrightarrow> \<not> truthy (body_price req))
           \<and> (''stockQuantity'' \<in> set missing \<longleftrightarrow> \<not> truthy (body_stockQuantity req))
           \<and> (''categoryId'' \<in> set missing \<longleftrightarrow> \<not> truthy (body_categoryId req))
           \<and> (''image'' \<in> set missing \<longleftrightarrow> req_file req = None)"
proof -
  let ?m = "missingFields_of req"
  have ne: "?m \<noteq> []"
    using assms by (auto simp: missingFields_of_def)
  have A: "createProduct e db req =
          (\<lparr>status = 400, json = MissingFields ''Missing required fields'' ?m\<rparr>, db, [])"
    using ne by (simp add: createProduct_def Let_def)
  have B: "distinct ?m"
    by (simp add: missingFields_of_def)
  have C: "set ?m \<subseteq> {''name'', ''price'', ''stockQuantity'', ''categoryId'', ''image''}"
    by (auto simp: missingFields_of_def)
  have D: "''name'' \<in> set ?m \<longleftrightarrow> \<not> truthy (body_name req)"
    by (simp add: missingFields_of_def)
  have E: "''price'' \<in> set ?m \<longleftrightarrow> \<not> truthy (body_price req)"
    by (simp add: missingFields_of_def)
  have F: "''stockQuantity'' \<in> set ?m \<longleftrightarrow> \<not> truthy (body_stockQuantity req)"
    by (simp add: missingFields_of_def)
  have G: "''categoryId'' \<in> set ?m \<longleftrightarrow> \<not> truthy (body_categoryId req)"
    by (simp add: missingFields_of_def)
  have H: "''image'' \<in> set ?m \<longleftrightarrow> req_file req = None"
    by (simp add: missingFields_of_def)
  show ?thesis
    by (rule exI [of _ ?m]) (intro conjI, fact A, fact B, fact C, fact D, fact E, fact F, fact G, fact H)
qed

theorem C4_witness:
  "createProduct example_env example_db (example_request\<lparr>body_name := JStr [], req_file := None\<rparr>) =
     (\<lparr>status = 400, json = MissingFields ''Missing required fields'' [''name'', ''image'']\<rparr>,
      example_db, [])"
proof -
  let ?req = "example_request\<lparr>body_name := JStr [], req_file := None\<rparr>"
  have h: "\<not> truthy (body_name ?req) \<or> \<not> truthy (body_price ?req) \<or>
           \<not> truthy (body_stockQuantity ?req) \<or> \<not> truthy (body_categoryId ?req) \<or>
           req_file ?req = None"
    by simp
  from C4_missing_fields [OF h, of example_env example_db]
  obtain missing where m:
    "createProduct example_env example_db ?req =
       (\<lparr>status = 400, json = MissingFields ''Missing required fields'' missing\<rparr>, example_db, [])
     \<and> distinct missing
     \<and> set missing \<subseteq> {''name'', ''price'', ''stockQuantity'', ''categoryId'', ''image''}
     \<and> (''name'' \<in> set missing \<longleftrightarrow> \<not> truthy (body_name ?req))
     \<and> (''price'' \<in> set missing \<longleftrightarrow> \<not> truthy (body_price ?req))
     \<and> (''stockQuantity'' \<in> set missing \<longleftrightarrow> \<not> truthy (body_stockQuantity ?req))
     \<and> (''categoryId'' \<in> set missing \<longleftrightarrow> \<not> truthy (body_categoryId ?req))
     \<and> (''image'' \<in> set missing \<longleftrightarrow> req_file ?req = None)" ..
  have "createProduct example_env example_db ?req =
     (\<lparr>status = 400, json = MissingFields ''Missing required fields'' [''name'', ''image'']\<rparr>,
      example_db, [])"
    by (simp add: createProduct_def missingFields_of_def example_request_def)
  with m show ?thesis by simp
qed

section \<open>updateProduct and deleteProduct: lookup and image deletion\<close>

text \<open>
  Claim C6. An update for a product id that is not in the database (the lookup itself
  answering) gets 404 with \<open>Product not found\<close>; the database is unchanged and the
  lookup is the only outside call, so the media host is never called.
\<close>

theorem C6_update_not_found:
  assumes "params_productId req \<notin> set (map productId (Products db))"
    and "db_fault e (PrismaFindUnique (params_productId req)) = None"
  shows "updateProduct e db req =
           (\<lparr>status = 404, json = Message ''Product not found''\<rparr>, db,
            [PrismaFindUnique (params_productId req)])
         \<and> \<not> list_ex media_call (snd (snd (updateProduct e db req)))"
proof -
  have "find (\<lambda>p. productId p = params_productId req) (Products db) = None"
    using assms(1) by (force simp: find_None_iff)
  then show ?thesis
    using assms(2)
    by (simp add: updateProduct_def prisma_products_findUnique_def media_call_def)
qed

theorem C6_witness:
  "updateProduct example_env example_db (example_request\<lparr>params_productId := ''p7''\<rparr>) =
     (\<lparr>status = 404, json = Message ''Product not found''\<rparr>, example_db, [PrismaFindUnique ''p7''])"
  using C6_update_not_found [of "example_request\<lparr>params_productId := ''p7''\<rparr>" example_db example_env]
  by (simp add: example_request_def example_db_def example_env_def example_product_def)

lemma find_productId: "find (\<lambda>p. productId p = pid) ps = Some p \<Longrightarrow> productId p = pid \<and> p \<in> set ps"
  by (induction ps) (auto split: if_splits)

lemma destroy_old_image_calls:
  "snd (destroy_old_image (e\<lparr>cloudinary_destroy := d\<rparr>) p) = snd (destroy_old_image e p)"
  by (simp add: destroy_old_image_def split: option.splits)

lemma destroy_old_image_key:
  assumes "imageUrl p = Some url" "url \<noteq> []" "publicId_of url = Some k" "k \<noteq> []"
  shows "destroy_old_image e p =
           (cloudinary_destroy e (''products/'' @ k), [CloudinaryDestroy (''products/'' @ k)])"
  using assms by (simp add: destroy_old_image_def)

lemma deleteProduct_found:
  assumes "find (\<lambda>p. productId p = params_productId req) (Products db) = Some product"
    and "db_fault e (PrismaFindUnique (params_productId req)) = None"
  shows "deleteProduct e db req =
           delete_row e db (params_productId req)
             (PrismaFindUnique (params_productId req) # snd (destroy_old_image e product))"
  using assms
  by (cases "destroy_old_image e product")
     (simp add: deleteProduct_def Let_def prisma_products_findUnique_def split: sum.splits)

lemma deleteProduct_ignores_destroy:
  "deleteProduct (e\<lparr>cloudinary_destroy := d\<rparr>) db req = deleteProduct e db req"
proof -
  have fu: "prisma_products_findUnique (e\<lparr>cloudinary_destroy := d\<rparr>) db pid =
            prisma_products_findUnique e db pid" for pid
    by (simp add: prisma_products_findUnique_def)
  have dr: "delete_row (e\<lparr>cloudinary_destroy := d\<rparr>) db pid cs = delete_row e db pid cs" for pid cs
    by (simp add: delete_row_def prisma_products_delete_def)
  have tail: "(case destroy_old_image e' p of
                 (Inl error, cs) \<Rightarrow> delete_row e db pid (PrismaFindUnique pid # cs)
               | (Inr u, cs) \<Rightarrow> delete_row e db pid (PrismaFindUnique pid # cs)) =
              delete_row e db pid (PrismaFindUnique pid # snd (destroy_old_image e' p))"
    for e' p pid
    by (cases "destroy_old_image e' p") (simp split: sum.splits)
  show ?thesis
    unfolding deleteProduct_def Let_def fu dr tail destroy_old_image_calls ..
qed

lemma delete_row_ok:
  assumes "pid \<in> set (map productId (Products db))" "db_fault e (PrismaDelete pid) = None"
  shows "delete_row e db pid cs =
           (\<lparr>status = 200, json = Message ''Product deleted successfully''\<rparr>,
            db\<lparr>Products := filter (\<lambda>p. productId p \<noteq> pid) (Products db),
               ProductCategoryToProducts :=
                 filter (\<lambda>(c, p). p \<noteq> pid) (ProductCategoryToProducts db)\<rparr>,
            cs @ [PrismaDelete pid])"
  using assms by (simp add: delete_row_def prisma_products_delete_def)

text \<open>
  Claim C2. When the product exists and the remote deletion of its image is rejected,
  \<open>deleteProduct\<close> still deletes the row and answers 200 with
  \<open>Product deleted successfully\<close> (the database delete itself succeeding). The
  outcome of the remote deletion never reaches the result: whatever
  \<open>cloudinary.uploader.destroy\<close> answers, response, database and calls are the same.
\<close>

theorem C2_delete_absorbs_image_failure:
  assumes "find (\<lambda>p. productId p = params_productId req) (Products db) = Some product"
    and "db_fault e (PrismaFindUnique (params_productId req)) = None"
    and "imageUrl product = Some url" and "url \<noteq> []"
    and "publicId_of url = Some publicId" and "publicId \<noteq> []"
    and "cloudinary_destroy e (''products/'' @ publicId) = Inl err"
    and "db_fault e (PrismaDelete (params_productId req)) = None"
  shows "\<exists>db'. deleteProduct e db req =
           (\<lparr>status = 200, json = Message ''Product deleted successfully''\<rparr>, db',
            [PrismaFindUnique (params_productId req),
             CloudinaryDestroy (''products/'' @ publicId),
             PrismaDelete (params_productId req)])
         \<and> Products db' = filter (\<lambda>p. productId p \<noteq> params_productId req) (Products db)
         \<and> params_productId req \<notin> set (map productId (Products db'))
         \<and> (\<forall>d. deleteProduct (e\<lparr>cloudinary_destroy := d\<rparr>) db req = deleteProduct e db req)"
proof -
  let ?pid = "params_productId req"
  define db' where
    "db' = db\<lparr>Products := filter (\<lambda>p. productId p \<noteq> ?pid) (Products db),
               ProductCategoryToProducts :=
                 filter (\<lambda>(c, p). p \<noteq> ?pid) (ProductCategoryToProducts db)\<rparr>"
  have mem: "?pid \<in> set (map productId (Products db))"
    using find_productId [OF assms(1)] by force
  have "deleteProduct e db req =
          delete_row e db ?pid [PrismaFindUnique ?pid, CloudinaryDestroy (''products/'' @ publicId)]"
    using deleteProduct_found [OF assms(1,2)] destroy_old_image_key [OF assms(3-6), of e]
    by simp
  then have A: "deleteProduct e db req =
           (\<lparr>status = 200, json = Message ''Product deleted successfully''\<rparr>, db',
            [PrismaFindUnique ?pid, CloudinaryDestroy (''products/'' @ publicId), PrismaDelete ?pid])"
    using delete_row_ok [OF mem assms(8)] by (simp add: db'_def)
  have B: "Products db' = filter (\<lambda>p. productId p \<noteq> ?pid) (Products db)"
    by (simp add: db'_def)
  have C: "?pid \<notin> set (map productId (Products db'))"
    by (auto simp: B)
  have D: "\<forall>d. deleteProduct (e\<lparr>cloudinary_destroy := d\<rparr>) db req = deleteProduct e db req"
    by (rule allI) (rule deleteProduct_ignores_destroy)
  show ?thesis
    by (rule exI [of _ db']) (intro conjI, fact A, fact B, fact C, fact D)
qed

theorem C2_witness:
  "fst (deleteProduct (example_env\<lparr>cloudinary_destroy := (\<lambda>k. Inl (ErrorObj ''timeout''))\<rparr>)
          example_db example_request) =
     \<lparr>status = 200, json = Message ''Product deleted successfully''\<rparr>
   \<and> ''p1'' \<notin> set (map productId (Products (fst (snd
        (deleteProduct (example_env\<lparr>cloudinary_destroy := (\<lambda>k. Inl (ErrorObj ''timeout''))\<rparr>)
           example_db example_request)))))"
proof -
  let ?e = "example_env\<lparr>cloudinary_destroy := (\<lambda>k. Inl (ErrorObj ''timeout''))\<rparr>"
  let ?p = "example_product ''p1'' (Some ''https://h/v1/products/abc.jpg'') 1790000000000"
  have pid: "params_productId example_request = ''p1''"
    by (simp add: example_request_def)
  have h1: "find (\<lambda>p. productId p = params_productId example_request) (Products example_db) = Some ?p"
    by (simp add: pid example_db_def example_product_def)
  have h2: "db_fault ?e (PrismaFindUnique (params_productId example_request)) = None"
    by (simp add: example_env_def)
  have h3: "imageUrl ?p = Some ''https://h/v1/products/abc.jpg''"
    by (simp add: example_product_def)
  have h4: "''https://h/v1/products/abc.jpg'' \<noteq> []" by simp
  have h5: "publicId_of ''https://h/v1/products/abc.jpg'' = Some ''abc''"
    using publicId_of_base_ext [of "''abc''" "''jpg''" "''https://h/v1/products''"] by simp
  have h6: "''abc'' \<noteq> []" by simp
  have h7: "cloudinary_destroy ?e (''products/'' @ ''abc'') = Inl (ErrorObj ''timeout'')"
    by simp
  have h8: "db_fault ?e (PrismaDelete (params_productId example_request)) = None"
    by (simp add: example_env_def)
  from C2_delete_absorbs_image_failure [OF h1 h2 h3 h4 h5 h6 h7 h8]
  obtain db' where r: "deleteProduct ?e example_db example_request =
           (\<lparr>status = 200, json = Message ''Product deleted successfully''\<rparr>, db',
            [PrismaFindUnique (params_productId example_request),
             CloudinaryDestroy (''products/'' @ ''abc''),
             PrismaDelete (params_productId example_request)])
         \<and> Products db' = filter (\<lambda>p. productId p \<noteq> params_productId example_request) (Products example_db)
         \<and> params_productId example_request \<notin> set (map productId (Products db'))
         \<and> (\<forall>d. deleteProduct (?e\<lparr>cloudinary_destroy := d\<rparr>) example_db example_request
                  = deleteProduct ?e example_db example_request)" ..
  from r have r1: "deleteProduct ?e example_db example_request =
           (\<lparr>status = 200, json = Message ''Product deleted successfully''\<rparr>, db',
            [PrismaFindUnique (params_productId example_request),
             CloudinaryDestroy (''products/'' @ ''abc''),
             PrismaDelete (params_productId example_request)])"
    by (rule conjunct1)
  from r have r3: "params_productId example_request \<notin> set (map productId (Products db'))"
    by (elim conjE)
  show ?thesis
    using r3 unfolding r1 pid by simp
qed

text \<open>
  The remote deletion is guarded: a product without a stored image is updated with no
  deletion attempted, so a media host that rejects every deletion does not make the
  update fail. Here p2 exists, the request carries a file, and the update answers 200
  after the lookup, the upload and the database update.
\<close>

theorem C3_counterexample:
  "status (fst (updateProduct destroy_rejecting_env example_db no_image_update_request)) = 200
   \<and> snd (snd (updateProduct destroy_rejecting_env example_db no_image_update_request)) =
       [PrismaFindUnique ''p2'', CloudinaryUpload (Some ''/tmp/new.png''), PrismaUpdate ''p2'']"
  by (simp add: updateProduct_def update_row_def prisma_products_findUnique_def
        prisma_products_update_def destroy_old_image_def updated_name_def Let_def
        destroy_rejecting_env_def no_image_update_request_def
        example_env_def example_db_def example_product_def example_category_def)

text \<open>
  Claim C3, amended. When the product exists, the update carries a new file, and the
  stored row has a non-empty image URL with a non-empty key (the last path segment up
  to its first dot: for a URL ending in \<open>/base.ext\<close> the key is \<open>base\<close>), the remote
  deletion of \<open>products/\<close> followed by the key is attempted first; if that is
  rejected the response is 500 with \<open>Error handling image update\<close>, nothing is
  uploaded and the database is unchanged. \<open>deleteProduct\<close> on the same state and
  environment answers 200 instead (its database delete succeeding).
\<close>

theorem C3_update_image_delete_failure_is_fatal:
  assumes "find (\<lambda>p. productId p = params_productId req) (Products db) = Some existingProduct"
    and "db_fault e (PrismaFindUnique (params_productId req)) = None"
    and "req_file req = Some f"
    and "imageUrl existingProduct = Some url" and "url \<noteq> []"
    and "publicId_of url = Some publicId" and "publicId \<noteq> []"
    and "cloudinary_destroy e (''products/'' @ publicId) = Inl err"
  shows "updateProduct e db req =
           (\<lparr>status = 500, json = Message ''Error handling image update''\<rparr>, db,
            [PrismaFindUnique (params_productId req),
             CloudinaryDestroy (''products/'' @ publicId)])
         \<and> (\<forall>dir base ext.
               url = dir @ ''/'' @ base @ ''.'' @ ext \<and> CHR ''/'' \<notin> set base \<and>
               CHR ''.'' \<notin> set base \<and> CHR ''/'' \<notin> set ext
               \<longrightarrow> publicId = base)
         \<and> (db_fault e (PrismaDelete (params_productId req)) = None
               \<longrightarrow> fst (deleteProduct e db req) =
                     \<lparr>status = 200, json = Message ''Product deleted successfully''\<rparr>)"
proof -
  have mem: "params_productId req \<in> set (map productId (Products db))"
    using find_productId [OF assms(1)] by force
  have A: "updateProduct e db req =
           (\<lparr>status = 500, json = Message ''Error handling image update''\<rparr>, db,
            [PrismaFindUnique (params_productId req),
             CloudinaryDestroy (''products/'' @ publicId)])"
    using assms(1-3,8) destroy_old_image_key [OF assms(4-7), of e]
    by (simp add: updateProduct_def prisma_products_findUnique_def)
  have B: "\<forall>dir base ext.
               url = dir @ ''/'' @ base @ ''.'' @ ext \<and> CHR ''/'' \<notin> set base \<and>
               CHR ''.'' \<notin> set base \<and> CHR ''/'' \<notin> set ext
               \<longrightarrow> publicId = base"
  proof (intro allI impI, elim conjE)
    fix dir base ext
    assume u: "url = dir @ ''/'' @ base @ ''.'' @ ext"
      and b: "CHR ''/'' \<notin> set base" "CHR ''.'' \<notin> set base" "CHR ''/'' \<notin> set ext"
    have "publicId_of url = Some base"
      unfolding u by (rule publicId_of_base_ext [OF b])
    with assms(6) show "publicId = base" by simp
  qed
  have C: "db_fault e (PrismaDelete (params_productId req)) = None
               \<longrightarrow> fst (deleteProduct e db req) =
                     \<lparr>status = 200, json = Message ''Product deleted successfully''\<rparr>"
  proof
    assume ok: "db_fault e (PrismaDelete (params_productId req)) = None"
    show "fst (deleteProduct e db req) =
            \<lparr>status = 200, json = Message ''Product deleted successfully''\<rparr>"
      unfolding deleteProduct_found [OF assms(1,2)] delete_row_ok [OF mem ok] by simp
  qed
  show ?thesis
    by (intro conjI, fact A, fact B, fact C)
qed

theorem C3_witness:
  "updateProduct (example_env\<lparr>cloudinary_destroy := (\<lambda>k. Inl (ErrorObj ''timeout''))\<rparr>)
      example_db example_request =
     (\<lparr>status = 500, json = Message ''Error handling image update''\<rparr>, example_db,
      [PrismaFindUnique ''p1'', CloudinaryDestroy ''products/abc''])"
proof -
  let ?e = "example_env\<lparr>cloudinary_destroy := (\<lambda>k. Inl (ErrorObj ''timeout''))\<rparr>"
  let ?p = "example_product ''p1'' (Some ''https://h/v1/products/abc.jpg'') 1790000000000"
  have pid: "params_productId example_request = ''p1''"
    by (simp add: example_request_def)
  have h1: "find (\<lambda>p. productId p = params_productId example_request) (Products example_db) = Some ?p"
    by (simp add: pid example_db_def example_product_def)
  have h2: "db_fault ?e (PrismaFindUnique (params_productId example_request)) = None"
    by (simp add: example_env_def)
  have h3: "req_file example_request = Some example_file"
    by (simp add: example_request_def)
  have h4: "imageUrl ?p = Some ''https://h/v1/products/abc.jpg''"
    by (simp add: example_product_def)
  have h5: "''https://h/v1/products/abc.jpg'' \<noteq> []" by simp
  have h6: "publicId_of ''https://h/v1/products/abc.jpg'' = Some ''abc''"
    using publicId_of_base_ext [of "''abc''" "''jpg''" "''https://h/v1/products''"] by simp
  have h7: "''abc'' \<noteq> []" by simp
  have h8: "cloudinary_destroy ?e (''products/'' @ ''abc'') = Inl (ErrorObj ''timeout'')"
    by simp
  from C3_update_image_delete_failure_is_fatal [OF h1 h2 h3 h4 h5 h6 h7 h8]
  show ?thesis by (simp add: pid)
qed

section \<open>Database writes: the category relation\<close>

lemma filter_key_unique:
  "distinct (map f xs) \<Longrightarrow> k \<in> set (map f xs) \<Longrightarrow> map f (filter (\<lambda>x. f x = k) xs) = [k]"
proof (induction xs)
  case Nil
  then show ?case by simp
next
  case (Cons a xs)
  show ?case
  proof (cases "f a = k")
    case True
    from Cons.prems(1) True have "k \<notin> f ` set xs" by simp
    then have "\<forall>x\<in>set xs. f x \<noteq> k" by blast
    then have "filter (\<lambda>x. f x = k) xs = []" by (simp add: filter_empty_conv)
    with True show ?thesis by simp
  next
    case False
    with Cons show ?thesis by auto
  qed
qed

lemma categories_of_single:
  assumes "distinct (map categoryId (ProductCategory db))"
    and "cid \<in> set (map categoryId (ProductCategory db))"
    and "\<And>c. (c, pid) \<in> set (ProductCategoryToProducts db) \<longleftrightarrow> c = cid"
  shows "map categoryId (categories_of db pid) = [cid]"
  using filter_key_unique [OF assms(1,2)] by (simp add: categories_of_def assms(3))

lemma find_map_update:
  "find (\<lambda>p. productId p = pid) ps = Some old \<Longrightarrow> productId row = pid \<Longrightarrow>
   find (\<lambda>p. productId p = pid) (map (\<lambda>p. if productId p = pid then row else p) ps) = Some row"
  by (induction ps) (auto split: if_splits)

lemma prisma_products_update_Inr:
  assumes "prisma_products_update e db pid namev pr sq img cidv = Inr (pj, db')"
  shows "\<exists>cid old new.
           cidv = JStr cid \<and> cid \<in> set (map categoryId (ProductCategory db)) \<and>
           find (\<lambda>p. productId p = pid) (Products db) = Some old \<and>
           find (\<lambda>p. productId p = pid) (Products db') = Some new \<and>
           imageUrl new = img \<and> imageUrl pj = img \<and> productId pj = pid \<and>
           categories pj = categories_of db' pid \<and>
           ProductCategory db' = ProductCategory db \<and>
           map productId (Products db') = map productId (Products db) \<and>
           ProductCategoryToProducts db' =
             filter (\<lambda>(c, p). p \<noteq> pid) (ProductCategoryToProducts db) @ [(cid, pid)]"
proof -
  from assms obtain cid where cid: "cidv = JStr cid"
    by (cases cidv) (auto simp: prisma_products_update_def split: option.splits)
  from assms cid obtain old where old: "find (\<lambda>p. productId p = pid) (Products db) = Some old"
    by (cases "find (\<lambda>p. productId p = pid) (Products db)")
       (auto simp: prisma_products_update_def split: option.splits)
  from assms cid old obtain nm where nm: "updated_name namev (name old) = Some nm"
    by (cases "updated_name namev (name old)")
       (auto simp: prisma_products_update_def split: option.splits)
  have pid: "productId old = pid"
    using find_productId [OF old] by simp
  define row where "row = old\<lparr>name := nm, price := pr, stockQuantity := sq, imageUrl := img,
                               updatedAt := now e\<rparr>"
  have mem: "cid \<in> set (map categoryId (ProductCategory db))"
    using assms cid old nm
    by (auto simp: prisma_products_update_def split: option.splits if_splits)
  have db': "db' = db\<lparr>Products := map (\<lambda>p. if productId p = pid then row else p) (Products db),
                      ProductCategoryToProducts :=
                        filter (\<lambda>(c, p). p \<noteq> pid) (ProductCategoryToProducts db) @ [(cid, pid)]\<rparr>"
    and pj: "pj = with_categories db' row"
    using assms cid old nm mem
    by (auto simp: prisma_products_update_def row_def Let_def split: option.splits if_splits)
  have row: "productId row = pid" "imageUrl row = img"
    by (simp_all add: row_def pid)
  have new: "find (\<lambda>p. productId p = pid) (Products db') = Some row"
    using find_map_update [OF old row(1)] by (simp add: db')
  have "imageUrl pj = img" "productId pj = pid" "categories pj = categories_of db' pid"
    by (simp_all add: pj with_categories_def row)
  moreover have "ProductCategory db' = ProductCategory db"
    "ProductCategoryToProducts db' =
       filter (\<lambda>(c, p). p \<noteq> pid) (ProductCategoryToProducts db) @ [(cid, pid)]"
    by (simp_all add: db')
  moreover have "map productId (Products db') = map productId (Products db)"
    by (simp add: db' row(1) cong: map_cong)
  ultimately show ?thesis
    using cid mem old new row(2) by blast
qed

lemma update_row_200:
  assumes "update_row e db req pid img cs = (res, db', cs')" and "status res = 200"
  shows "\<exists>pj. prisma_products_update e db pid (body_name req) (ParseFloat (body_price req))
                (ParseInt (body_stockQuantity req)) img (body_categoryId req) = Inr (pj, db')
              \<and> json res = ProductJson pj \<and> cs' = cs @ [PrismaUpdate pid]"
  using assms by (auto simp: update_row_def split: sum.splits prod.splits)

lemma updateProduct_200:
  assumes "updateProduct e db req = (res, db', cs)" and "status res = 200"
  shows "\<exists>img cs0. update_row e db req (params_productId req) img cs0 = (res, db', cs)"
  using assms
  by (auto simp: updateProduct_def Let_def split: sum.splits option.splits prod.splits)

text \<open>
  Claim C5. After a successful update (status 200) the join table links the product to
  exactly one category, the \<open>categoryId\<close> of the request, whatever it was linked to
  before; with category ids unique, the categories returned with the product are that
  one category.
\<close>

theorem C5_update_connects_exactly_one_category:
  assumes "updateProduct e db req = (res, db', cs)"
    and "status res = 200"
    and "distinct (map categoryId (ProductCategory db))"
  shows "\<exists>cid updatedProduct.
           body_categoryId req = JStr cid \<and>
           json res = ProductJson updatedProduct \<and>
           map categoryId (categories updatedProduct) = [cid] \<and>
           categories updatedProduct = categories_of db' (params_productId req) \<and>
           map fst (filter (\<lambda>(c, p). p = params_productId req) (ProductCategoryToProducts db'))
             = [cid]"
proof -
  let ?pid = "params_productId req"
  from updateProduct_200 [OF assms(1,2)] obtain img cs0
    where "update_row e db req ?pid img cs0 = (res, db', cs)" by blast
  from update_row_200 [OF this assms(2)] obtain pj
    where upd: "prisma_products_update e db ?pid (body_name req) (ParseFloat (body_price req))
                  (ParseInt (body_stockQuantity req)) img (body_categoryId req) = Inr (pj, db')"
      and res: "json res = ProductJson pj" by blast
  from prisma_products_update_Inr [OF upd] obtain cid
    where cid: "body_categoryId req = JStr cid"
      and mem: "cid \<in> set (map categoryId (ProductCategory db))"
      and cats: "categories pj = categories_of db' ?pid"
      and same: "ProductCategory db' = ProductCategory db"
      and links: "ProductCategoryToProducts db' =
                    filter (\<lambda>(c, p). p \<noteq> ?pid) (ProductCategoryToProducts db) @ [(cid, ?pid)]"
    by blast
  have only: "(c, ?pid) \<in> set (ProductCategoryToProducts db') \<longleftrightarrow> c = cid" for c
    by (auto simp: links)
  have one: "map categoryId (categories_of db' ?pid) = [cid]"
    by (rule categories_of_single) (use mem in \<open>simp_all add: same assms(3) only\<close>)
  have "filter (\<lambda>(c, p). p = ?pid) (filter (\<lambda>(c, p). p \<noteq> ?pid) (ProductCategoryToProducts db)) = []"
    by (auto simp: filter_empty_conv)
  then have join: "map fst (filter (\<lambda>(c, p). p = ?pid) (ProductCategoryToProducts db')) = [cid]"
    by (simp add: links)
  show ?thesis
    using cid res cats one join by simp
qed

theorem C5_witness:
  "\<exists>updatedProduct.
     json (fst (updateProduct example_env example_db example_request)) = ProductJson updatedProduct
     \<and> map categoryId (categories updatedProduct) = [''c2'']"
proof -
  obtain res db' cs where r: "updateProduct example_env example_db example_request = (res, db', cs)"
    by (cases "updateProduct example_env example_db example_request")
  have k: "publicId_of ''https://h/v1/products/abc.jpg'' = Some ''abc''"
    using publicId_of_base_ext [of "''abc''" "''jpg''" "''https://h/v1/products''"] by simp
  have "status (fst (updateProduct example_env example_db example_request)) = 200"
    by (simp add: updateProduct_def update_row_def prisma_products_findUnique_def
          prisma_products_update_def destroy_old_image_def updated_name_def k Let_def
          example_env_def example_db_def example_request_def example_product_def
          example_category_def example_file_def)
  then have s: "status res = 200" by (simp add: r)
  have d: "distinct (map categoryId (ProductCategory example_db))"
    by (simp add: example_db_def example_category_def)
  from C5_update_connects_exactly_one_category [OF r s d]
  obtain cid where "\<exists>updatedProduct.
           body_categoryId example_request = JStr cid \<and>
           json res = ProductJson updatedProduct \<and>
           map categoryId (categories updatedProduct) = [cid] \<and>
           categories updatedProduct = categories_of db' (params_productId example_request) \<and>
           map fst (filter (\<lambda>(c, p). p = params_productId example_request)
                      (ProductCategoryToProducts db')) = [cid]" ..
  then obtain updatedProduct where c:
          "body_categoryId example_request = JStr cid \<and>
           json res = ProductJson updatedProduct \<and>
           map categoryId (categories updatedProduct) = [cid] \<and>
           categories updatedProduct = categories_of db' (params_productId example_request) \<and>
           map fst (filter (\<lambda>(c, p). p = params_productId example_request)
                      (ProductCategoryToProducts db')) = [cid]" ..
  from c have c1: "body_categoryId example_request = JStr cid" by (elim conjE)
  from c have c2: "json res = ProductJson updatedProduct" by (elim conjE)
  from c have c3: "map categoryId (categories updatedProduct) = [cid]" by (elim conjE)
  from c1 have "cid = ''c2''"
    by (simp add: example_request_def)
  with c2 c3 have "json res = ProductJson updatedProduct \<and>
               map categoryId (categories updatedProduct) = [''c2'']"
    by simp
  then show ?thesis
    unfolding r fst_conv by (rule exI)
qed

lemma prisma_products_create_Inr:
  assumes "prisma_products_create e db pidv namev pr sq img cidv = Inr (pj, db')"
  shows "\<exists>pid cid.
           pidv = JStr pid \<and> cidv = JStr cid \<and>
           pid \<notin> set (map productId (Products db)) \<and>
           cid \<in> set (map categoryId (ProductCategory db)) \<and>
           productId pj = pid \<and> imageUrl pj = img \<and>
           categories pj = categories_of db' pid \<and>
           ProductCategory db' = ProductCategory db \<and>
           map productId (Products db') = map productId (Products db) @ [pid] \<and>
           ProductCategoryToProducts db' = ProductCategoryToProducts db @ [(cid, pid)]"
proof -
  from assms obtain pid where pid: "pidv = JStr pid"
    by (cases pidv) (auto simp: prisma_products_create_def split: option.splits)
  from assms pid obtain nm where nm: "namev = JStr nm"
    by (cases namev) (auto simp: prisma_products_create_def split: option.splits)
  from assms pid nm obtain cid where cid: "cidv = JStr cid"
    by (cases cidv) (auto simp: prisma_products_create_def split: option.splits)
  have new: "pid \<notin> set (map productId (Products db))"
    and mem: "cid \<in> set (map categoryId (ProductCategory db))"
    using assms pid nm cid
    by (auto simp: prisma_products_create_def split: option.splits if_splits)
  define row where "row = \<lparr>productId = pid, name = nm, price = pr, stockQuantity = sq,
                            imageUrl = img, createdAt = now e, updatedAt = now e\<rparr>"
  have db': "db' = db\<lparr>Products := Products db @ [row],
                      ProductCategoryToProducts := ProductCategoryToProducts db @ [(cid, pid)]\<rparr>"
    and pj: "pj = with_categories db' row"
    using assms pid nm cid new mem
    by (auto simp: prisma_products_create_def row_def Let_def split: option.splits if_splits)
  have "productId pj = pid" "imageUrl pj = img" "categories pj = categories_of db' pid"
    by (simp_all add: pj with_categories_def row_def)
  moreover have "ProductCategory db' = ProductCategory db"
    "ProductCategoryToProducts db' = ProductCategoryToProducts db @ [(cid, pid)]"
    "map productId (Products db') = map productId (Products db) @ [pid]"
    by (simp_all add: db' row_def)
  ultimately show ?thesis
    using pid cid new mem by blast
qed

lemma wf_db_no_links_of_new:
  assumes "wf_db db" and "pid \<notin> set (map productId (Products db))"
  shows "(c, pid) \<notin> set (ProductCategoryToProducts db)"
  using assms by (auto simp: wf_db_def list_all_iff)

text \<open>
  Claim C9. With every required field and the image present, the upload resolving to
  a secure URL and the database write succeeding, \<open>createProduct\<close> answers 201 with
  the created product: its \<open>imageUrl\<close> is that secure URL, and it is connected to
  exactly one category, the \<open>categoryId\<close> of the request (the state satisfying the key
  constraints of the schema).
\<close>

theorem C9_create_success:
  assumes "missingFields_of req = []"
    and "req_file req = Some f"
    and "buffer f = Some bytes"
    and "cloudinary_upload e (Some (dataURI (mimetype f) bytes)) = Inr secure_url"
    and "prisma_products_create e db (body_productId req) (body_name req)
           (ParseFloat (body_price req)) (ParseInt (body_stockQuantity req)) (Some secure_url)
           (body_categoryId req) = Inr (product, db')"
    and "wf_db db"
  shows "createProduct e db req =
           (\<lparr>status = 201, json = ProductJson product\<rparr>, db',
            [CloudinaryUpload (Some (dataURI (mimetype f) bytes)), PrismaCreate])
         \<and> imageUrl product = Some secure_url
         \<and> (\<exists>cid. body_categoryId req = JStr cid \<and>
                   map categoryId (categories product) = [cid] \<and>
                   map fst (filter (\<lambda>(c, p). p = productId product)
                              (ProductCategoryToProducts db')) = [cid])"
proof -
  have A: "createProduct e db req =
           (\<lparr>status = 201, json = ProductJson product\<rparr>, db',
            [CloudinaryUpload (Some (dataURI (mimetype f) bytes)), PrismaCreate])"
    using assms(1-5) by (simp add: createProduct_def create_row_def)
  from prisma_products_create_Inr [OF assms(5)] obtain pid cid
    where cid: "body_categoryId req = JStr cid"
      and new: "pid \<notin> set (map productId (Products db))"
      and mem: "cid \<in> set (map categoryId (ProductCategory db))"
      and pid: "productId product = pid"
      and B: "imageUrl product = Some secure_url"
      and cats: "categories product = categories_of db' pid"
      and same: "ProductCategory db' = ProductCategory db"
      and links: "ProductCategoryToProducts db' = ProductCategoryToProducts db @ [(cid, pid)]"
    by blast
  have none: "(c, pid) \<notin> set (ProductCategoryToProducts db)" for c
    by (rule wf_db_no_links_of_new [OF assms(6) new])
  have only: "(c, pid) \<in> set (ProductCategoryToProducts db') \<longleftrightarrow> c = cid" for c
    using none by (auto simp: links)
  have d: "distinct (map categoryId (ProductCategory db))"
    using assms(6) by (simp add: wf_db_def)
  have one: "map categoryId (categories_of db' pid) = [cid]"
    by (rule categories_of_single) (use mem in \<open>simp_all add: same d only\<close>)
  have "filter (\<lambda>(c, p). p = pid) (ProductCategoryToProducts db) = []"
    using none by (auto simp: filter_empty_conv)
  then have join: "map fst (filter (\<lambda>(c, p). p = pid) (ProductCategoryToProducts db')) = [cid]"
    by (simp add: links)
  have C: "\<exists>cid. body_categoryId req = JStr cid \<and>
                   map categoryId (categories product) = [cid] \<and>
                   map fst (filter (\<lambda>(c, p). p = productId product)
                              (ProductCategoryToProducts db')) = [cid]"
    using cid one join by (simp add: cats pid)
  show ?thesis
    by (intro conjI, fact A, fact B, fact C)
qed

theorem C9_witness:
  "\<exists>product db'.
     createProduct example_env example_db example_request =
       (\<lparr>status = 201, json = ProductJson product\<rparr>, db',
        [CloudinaryUpload (Some (dataURI ''image/png'' ''Man'')), PrismaCreate])
     \<and> imageUrl product = Some ''https://h/v2/products/new.png''
     \<and> map categoryId (categories product) = [''c2'']"
proof -
  obtain product db' where w:
    "prisma_products_create example_env example_db (body_productId example_request)
       (body_name example_request) (ParseFloat (body_price example_request))
       (ParseInt (body_stockQuantity example_request)) (Some ''https://h/v2/products/new.png'')
       (body_categoryId example_request) = Inr (product, db')"
    by (simp add: prisma_products_create_def Let_def example_env_def example_db_def
          example_request_def example_product_def example_category_def)
  have h1: "missingFields_of example_request = []"
    by (simp add: missingFields_of_def example_request_def)
  have h2: "req_file example_request = Some example_file"
    by (simp add: example_request_def)
  have h3: "buffer example_file = Some ''Man''"
    by (simp add: example_file_def)
  have h4: "cloudinary_upload example_env (Some (dataURI (mimetype example_file) ''Man''))
              = Inr ''https://h/v2/products/new.png''"
    by (simp add: example_env_def)
  have h6: "wf_db example_db"
    by (simp add: wf_db_def example_db_def example_product_def example_category_def)
  note c9 = C9_create_success [OF h1 h2 h3 h4 w h6]
  from c9 have A: "createProduct example_env example_db example_request =
       (\<lparr>status = 201, json = ProductJson product\<rparr>, db',
        [CloudinaryUpload (Some (dataURI (mimetype example_file) ''Man'')), PrismaCreate])"
    by (rule conjunct1)
  from c9 have B: "imageUrl product = Some ''https://h/v2/products/new.png''"
    by (elim conjE)
  from c9 have "\<exists>cid. body_categoryId example_request = JStr cid \<and>
                   map categoryId (categories product) = [cid] \<and>
                   map fst (filter (\<lambda>(c, p). p = productId product)
                              (ProductCategoryToProducts db')) = [cid]"
    by (elim conjE)
  then obtain cid where c: "body_categoryId example_request = JStr cid \<and>
                   map categoryId (categories product) = [cid] \<and>
                   map fst (filter (\<lambda>(c, p). p = productId product)
                              (ProductCategoryToProducts db')) = [cid]" ..
  from c have c1: "body_categoryId example_request = JStr cid" by (elim conjE)
  from c have c2: "map categoryId (categories product) = [cid]" by (elim conjE)
  from c1 have "cid = ''c2''" by (simp add: example_request_def)
  with c2 have C: "map categoryId (categories product) = [''c2'']" by simp
  have m: "mimetype example_file = ''image/png''" by (simp add: example_file_def)
  show ?thesis
    by (rule exI [of _ product], rule exI [of _ db'])
       (intro conjI, fact A [unfolded m], fact B, fact C)
qed

section \<open>The handlers keep the key constraints\<close>

lemma wf_db_create:
  assumes "wf_db db"
    and "prisma_products_create e db pidv namev pr sq img cidv = Inr (pj, db')"
  shows "wf_db db'"
proof -
  from prisma_products_create_Inr [OF assms(2)] obtain pid cid
    where new: "pid \<notin> set (map productId (Products db))"
      and mem: "cid \<in> set (map categoryId (ProductCategory db))"
      and cats: "ProductCategory db' = ProductCategory db"
      and ids: "map productId (Products db') = map productId (Products db) @ [pid]"
      and links: "ProductCategoryToProducts db' = ProductCategoryToProducts db @ [(cid, pid)]"
    by blast
  have fresh: "(cid, pid) \<notin> set (ProductCategoryToProducts db)"
    by (rule wf_db_no_links_of_new [OF assms(1) new])
  show ?thesis
    using assms(1) new mem fresh
    unfolding wf_db_def cats ids links
    by (auto simp: list_all_iff)
qed

lemma wf_db_update:
  assumes "wf_db db"
    and "prisma_products_update e db pid namev pr sq img cidv = Inr (pj, db')"
  shows "wf_db db'"
proof -
  from prisma_products_update_Inr [OF assms(2)] obtain cid old
    where mem: "cid \<in> set (map categoryId (ProductCategory db))"
      and old: "find (\<lambda>p. productId p = pid) (Products db) = Some old"
      and cats: "ProductCategory db' = ProductCategory db"
      and ids: "map productId (Products db') = map productId (Products db)"
      and links: "ProductCategoryToProducts db' =
                    filter (\<lambda>(c, p). p \<noteq> pid) (ProductCategoryToProducts db) @ [(cid, pid)]"
    by blast
  have pid: "pid \<in> set (map productId (Products db))"
    using find_productId [OF old] by force
  show ?thesis
    using assms(1) mem pid
    unfolding wf_db_def cats ids links
    by (auto simp: list_all_iff)
qed

lemma wf_db_delete:
  assumes "wf_db db" and "prisma_products_delete e db pid = Inr db'"
  shows "wf_db db'"
proof -
  from assms(2) have db': "db' = db\<lparr>Products := filter (\<lambda>p. productId p \<noteq> pid) (Products db),
                       ProductCategoryToProducts :=
                         filter (\<lambda>(c, p). p \<noteq> pid) (ProductCategoryToProducts db)\<rparr>"
    by (auto simp: prisma_products_delete_def split: option.splits if_splits)
  show ?thesis
    using assms(1) unfolding wf_db_def db'
    by (auto simp: list_all_iff distinct_map_filter)
qed

lemma createProduct_wf_db: "wf_db db \<Longrightarrow> wf_db (fst (snd (createProduct e db req)))"
  by (auto simp: createProduct_def create_row_def Let_def wf_db_create
           split: option.splits sum.splits prod.splits)

lemma updateProduct_wf_db: "wf_db db \<Longrightarrow> wf_db (fst (snd (updateProduct e db req)))"
  by (auto simp: updateProduct_def update_row_def Let_def wf_db_update
           split: option.splits sum.splits prod.splits)

lemma deleteProduct_wf_db: "wf_db db \<Longrightarrow> wf_db (fst (snd (deleteProduct e db req)))"
  by (auto simp: deleteProduct_def delete_row_def Let_def wf_db_delete
           split: option.splits sum.splits prod.splits)

section \<open>getNewArrivals\<close>

lemma findMany_products_not_Nil:
  assumes "prisma_productCategory_findMany e db P P = Inr cats"
  shows "\<forall>cj\<in>set cats. products cj \<noteq> []"
proof -
  have ne: "sort_key (\<lambda>p. - createdAt p) (filter P (products_of db (categoryId c))) \<noteq> []"
    if "list_ex P (products_of db (categoryId c))" for c
  proof -
    from that have "filter P (products_of db (categoryId c)) \<noteq> []"
      by (simp add: list_ex_iff filter_empty_conv)
    then have "length (sort_key (\<lambda>p. - createdAt p) (filter P (products_of db (categoryId c)))) \<noteq> 0"
      by simp
    then show ?thesis by fastforce
  qed
  from assms have "cats =
      map (\<lambda>c. with_products c
                 (sort_key (\<lambda>p. - createdAt p) (filter P (products_of db (categoryId c)))))
        (filter (\<lambda>c. list_ex P (products_of db (categoryId c))) (ProductCategory db))"
    by (simp add: prisma_productCategory_findMany_def split: option.splits)
  then show ?thesis
    using ne by (auto simp: with_products_def)
qed

lemma filter_after_query_id:
  assumes "prisma_productCategory_findMany e db P P = Inr cats"
  shows "filter (\<lambda>category. length (products category) > 0) cats = cats"
  using findMany_products_not_Nil [OF assms] by (simp add: filter_id_conv)


subsection \<open>The calendar\<close>

lemma div_step:
  fixes a n :: int
  assumes "1 < n"
  shows "(a + 1) div n = a div n + (if (a + 1) mod n = 0 then 1 else 0)"
proof -
  define q r where "q = a div n" and "r = a mod n"
  have r: "0 \<le> r" "r < n" using assms by (simp_all add: r_def)
  have a: "a + 1 = n * q + (r + 1)" by (simp add: q_def r_def)
  show ?thesis
  proof (cases "r + 1 = n")
    case True
    with a have eq: "a + 1 = n * (q + 1) + 0" by (simp add: algebra_simps)
    have "(a + 1) div n = q + 1"
      by (rule int_div_pos_eq [OF eq]) (use assms in simp_all)
    moreover have "(a + 1) mod n = 0"
      by (rule int_mod_pos_eq [OF eq]) (use assms in simp_all)
    ultimately show ?thesis by (simp add: q_def)
  next
    case False
    with r have lt: "r + 1 < n" by simp
    have "(a + 1) div n = q"
      by (rule int_div_pos_eq [OF a]) (use r lt in simp_all)
    moreover have "(a + 1) mod n = r + 1"
      by (rule int_mod_pos_eq [OF a]) (use r lt in simp_all)
    ultimately show ?thesis using r by (simp add: q_def)
  qed
qed

lemma mod_shift:
  fixes y n k :: int
  shows "(y - n * k) mod n = y mod n"
  using mod_mult_self2 [of y n "- k"] by simp

text \<open>A year is as long as \<open>DaysInYear\<close> says.\<close>

lemma DayFromYear_Suc: "DayFromYear (y + 1) = DayFromYear y + DaysInYear y"
proof -
  have s4: "(y - 1969 + 1) div 4 = (y - 1969) div 4 + (if y mod 4 = 0 then 1 else 0)"
    using div_step [of 4 "y - 1969"] mod_shift [of y 4 492] by simp
  have s100: "(y - 1901 + 1) div 100 = (y - 1901) div 100 + (if y mod 100 = 0 then 1 else 0)"
    using div_step [of 100 "y - 1901"] mod_shift [of y 100 19] by simp
  have s400: "(y - 1601 + 1) div 400 = (y - 1601) div 400 + (if y mod 400 = 0 then 1 else 0)"
    using div_step [of 400 "y - 1601"] mod_shift [of y 400 4] by simp
  have m1: "y mod 4 = 0" if "y mod 100 = 0"
  proof -
    from that have "100 dvd y" by (simp add: mod_eq_0_iff_dvd)
    moreover have "(4::int) dvd 100" by simp
    ultimately have "4 dvd y" by (rule dvd_trans [rotated])
    then show ?thesis by (simp add: mod_eq_0_iff_dvd)
  qed
  have m2: "y mod 100 = 0" if "y mod 400 = 0"
  proof -
    from that have "400 dvd y" by (simp add: mod_eq_0_iff_dvd)
    moreover have "(100::int) dvd 400" by simp
    ultimately have "100 dvd y" by (rule dvd_trans [rotated])
    then show ?thesis by (simp add: mod_eq_0_iff_dvd)
  qed
  have e: "DayFromYear (y + 1) =
          365 * (y - 1970) + 365 + (y - 1969 + 1) div 4 - (y - 1901 + 1) div 100
            + (y - 1601 + 1) div 400"
    by (simp add: DayFromYear_def)
  show ?thesis
    unfolding e s4 s100 s400
    using m1 m2 by (auto simp: DayFromYear_def DaysInYear_def)
qed

lemma DaysInYear_cases: "DaysInYear y = 365 \<or> DaysInYear y = 366"
  by (simp add: DaysInYear_def)

lemma DayFromYear_less: "y < y' \<Longrightarrow> DayFromYear y < DayFromYear y'"
proof (induction y' rule: int_gr_induct)
  case base
  show ?case using DayFromYear_Suc [of y] DaysInYear_cases [of y] by auto
next
  case (step i)
  then show ?case using DayFromYear_Suc [of i] DaysInYear_cases [of i] by auto
qed

lemma year_search_bounds:
  "DayFromYear (year_search y d) \<le> d \<and> d < DayFromYear (year_search y d + 1)"
proof (induction y d rule: year_search.induct)
  case (1 y d)
  show ?case
  proof (cases "DayFromYear (y + 1) \<le> d")
    case True
    with 1 show ?thesis by (subst (1 2) year_search.simps) simp
  next
    case False
    show ?thesis
    proof (cases "d < DayFromYear y")
      case True
      with False 1 show ?thesis by (subst (1 2) year_search.simps) simp
    next
      case False
      with \<open>\<not> DayFromYear (y + 1) \<le> d\<close> show ?thesis
        by (subst (1 2) year_search.simps) simp
    qed
  qed
qed

text \<open>
  \<open>YearFromTime\<close> is what ECMAScript asks for: the largest year that starts at or
  before the time value.
\<close>

lemma YearFromTime_largest:
  "DayFromYear (YearFromTime t) \<le> Day t \<and>
   (\<forall>y. DayFromYear y \<le> Day t \<longrightarrow> y \<le> YearFromTime t)"
proof -
  have b: "DayFromYear (YearFromTime t) \<le> Day t" "Day t < DayFromYear (YearFromTime t + 1)"
    using year_search_bounds [of "1970 + Day t div 365" "Day t"]
    by (simp_all add: YearFromTime_def)
  have "y \<le> YearFromTime t" if "DayFromYear y \<le> Day t" for y
  proof (rule ccontr)
    assume "\<not> y \<le> YearFromTime t"
    then have "YearFromTime t + 1 = y \<or> YearFromTime t + 1 < y" by auto
    then have "DayFromYear (YearFromTime t + 1) \<le> DayFromYear y"
      using DayFromYear_less [of "YearFromTime t + 1" y] by auto
    with that b(2) show False by simp
  qed
  with b(1) show ?thesis by simp
qed



lemma month_disj:
  fixes m :: int
  assumes "0 \<le> m" "m \<le> 11"
  shows "m = 0 \<or> m = 1 \<or> m = 2 \<or> m = 3 \<or> m = 4 \<or> m = 5 \<or> m = 6
    \<or> m = 7 \<or> m = 8 \<or> m = 9 \<or> m = 10 \<or> m = 11"
  using assms by presburger



text \<open>
  \<open>MakeDay\<close> is what ECMAScript asks for: the day it gives for the first of a month
  lies in that year and month and is its first day.
\<close>

lemma MakeDay_first_of_month:
  assumes "0 \<le> mn" and "mn \<le> 11"
  shows "YearFromTime (MakeDate (MakeDay y mn 1) 0) = y \<and>
         MonthFromTime (MakeDate (MakeDay y mn 1) 0) = mn \<and>
         DateFromTime (MakeDate (MakeDay y mn 1) 0) = 1"
proof -
  define leap :: int where "leap = (if DaysInYear y = 366 then 1 else 0)"
  define t where "t = MakeDate (MakeDay y mn 1) 0"
  have dm: "mn div 12 = 0" "mn mod 12 = mn"
    using assms by simp_all
  have day: "Day t = DayFromYear y + month_start mn leap"
    by (simp add: t_def MakeDate_def MakeDay_def Day_def msPerDay_def dm leap_def)
  have ms: "0 \<le> month_start mn leap" "month_start mn leap < DaysInYear y"
    using DaysInYear_cases [of y] by (auto simp: month_start_def leap_def)
  have lo: "DayFromYear y \<le> Day t" and hi: "Day t < DayFromYear (y + 1)"
    using ms by (simp_all add: day DayFromYear_Suc)
  have year: "YearFromTime t = y"
  proof (rule antisym)
    show "y \<le> YearFromTime t"
      using YearFromTime_largest [of t] lo by blast
    show "YearFromTime t \<le> y"
    proof (rule ccontr)
      assume "\<not> YearFromTime t \<le> y"
      then have "y + 1 = YearFromTime t \<or> y + 1 < YearFromTime t" by auto
      then have "DayFromYear (y + 1) \<le> DayFromYear (YearFromTime t)"
        using DayFromYear_less [of "y + 1" "YearFromTime t"] by auto
      with YearFromTime_largest [of t] hi show False by simp
    qed
  qed
  have dwy: "DayWithinYear t = month_start mn leap"
    by (simp add: DayWithinYear_def year day)
  have il: "InLeapYear t = leap"
    by (simp add: InLeapYear_def year leap_def)
  have l: "leap = 0 \<or> leap = 1" by (simp add: leap_def)
  have month: "MonthFromTime t = mn"
    using month_disj [OF assms] l
    by (auto simp: MonthFromTime_def dwy il month_start_def Let_def)
  have date: "DateFromTime t = 1"
    by (simp add: DateFromTime_def dwy il month)
  show ?thesis
    unfolding t_def [symmetric] using year month date by simp
qed





text \<open>
  Across a change of daylight saving time the cutoff is converted back with the offset
  in force at the cutoff: at 19:00 on 1 November 2026 in New York (UTC-5) it is
  19:00 on 1 September (UTC-4).
\<close>

lemma twoMonthsAgo_new_york: "twoMonthsAgo new_york_env = 1788303600000"
  by code_simp

text \<open>
  At the end of a month the day of the month may not exist two months earlier, and the
  cutoff runs on into the next month: from 30 April 2023 it is 2 March, 59 days back.
\<close>

lemma twoMonthsAgo_month_end:
  "twoMonthsAgo (example_env\<lparr>now := 1682812800000\<rparr>) = 1677715200000"
  by code_simp

subsection \<open>The query\<close>





text \<open>
  Claim C8. The filter that \<open>getNewArrivals\<close> applies after the query, dropping
  categories with an empty product list, changes nothing: the handler and the handler
  without that filter give the same response, database and calls on every state.
\<close>

theorem C8_filter_after_query_is_redundant:
  "getNewArrivals e db = getNewArrivals_without_filter e db"
proof (cases "prisma_productCategory_findMany e db
                (\<lambda>p. twoMonthsAgo e \<le> createdAt p) (\<lambda>p. twoMonthsAgo e \<le> createdAt p)")
  case (Inl err)
  then show ?thesis
    by (simp add: getNewArrivals_def getNewArrivals_without_filter_def Let_def)
next
  case (Inr cats)
  then show ?thesis
    using filter_after_query_id [OF Inr]
    by (simp add: getNewArrivals_def getNewArrivals_without_filter_def Let_def)
qed

theorem C8_witness:
  "getNewArrivals example_env example_db = getNewArrivals_without_filter example_env example_db
   \<and> status (fst (getNewArrivals_without_filter example_env example_db)) = 200"
proof -
  have "status (fst (getNewArrivals_without_filter example_env example_db)) = 200"
    by (simp add: getNewArrivals_without_filter_def prisma_productCategory_findMany_def
          Let_def example_env_def)
  then show ?thesis
    using C8_filter_after_query_is_redundant [of example_env example_db] by simp
qed

section \<open>The update route\<close>

lemma updateProduct_no_file:
  assumes "req_file req = None"
  shows "updateProduct e db req =
           (case prisma_products_findUnique e db (params_productId req) of
              Inl error \<Rightarrow>
                (\<lparr>status = 500, json = Message ''Error updating product''\<rparr>, db,
                 [PrismaFindUnique (params_productId req)])
            | Inr None \<Rightarrow>
                (\<lparr>status = 404, json = Message ''Product not found''\<rparr>, db,
                 [PrismaFindUnique (params_productId req)])
            | Inr (Some existingProduct) \<Rightarrow>
                update_row e db req (params_productId req) (imageUrl existingProduct)
                  [PrismaFindUnique (params_productId req)])"
  using assms by (simp add: updateProduct_def Let_def split: sum.splits option.splits)

lemma update_row_calls:
  "snd (snd (update_row e db req pid img cs)) = cs @ [PrismaUpdate pid]"
  by (simp add: update_row_def split: sum.splits prod.splits)

lemma updateProduct_no_file_calls:
  assumes "req_file req = None"
  shows "\<not> list_ex media_call (snd (snd (updateProduct e db req)))"
  unfolding updateProduct_no_file [OF assms]
  by (simp add: update_row_calls media_call_def split: sum.splits option.splits)

lemma updateProduct_no_file_200:
  assumes "req_file req = None"
    and "updateProduct e db req = (res, db', cs)"
    and "status res = 200"
  shows "\<exists>old new pj.
           find (\<lambda>p. productId p = params_productId req) (Products db) = Some old \<and>
           find (\<lambda>p. productId p = params_productId req) (Products db') = Some new \<and>
           imageUrl new = imageUrl old \<and>
           json res = ProductJson pj \<and> imageUrl pj = imageUrl old"
proof -
  let ?pid = "params_productId req"
  from assms(2,3) obtain ex where
    fu: "prisma_products_findUnique e db ?pid = Inr (Some ex)"
    and ur: "update_row e db req ?pid (imageUrl ex) [PrismaFindUnique ?pid] = (res, db', cs)"
    unfolding updateProduct_no_file [OF assms(1)]
    by (auto split: sum.splits option.splits)
  from fu have old: "find (\<lambda>p. productId p = ?pid) (Products db) = Some ex"
    by (simp add: prisma_products_findUnique_def split: option.splits)
  from update_row_200 [OF ur assms(3)] obtain pj
    where upd: "prisma_products_update e db ?pid (body_name req) (ParseFloat (body_price req))
                  (ParseInt (body_stockQuantity req)) (imageUrl ex) (body_categoryId req)
                  = Inr (pj, db')"
      and res: "json res = ProductJson pj" by blast
  from prisma_products_update_Inr [OF upd] obtain new
    where "find (\<lambda>p. productId p = ?pid) (Products db') = Some new"
      and "imageUrl new = imageUrl ex" and "imageUrl pj = imageUrl ex"
    by blast
  with old res show ?thesis by simp
qed

text \<open>
  Claim C10. The PUT route hands the request to \<open>updateProduct\<close> without the multipart
  middleware, so \<open>req.file\<close> is absent whatever the payload carries: no call to the
  media host is made during an update through the route, and after every successful
  update (status 200) the stored and the returned \<open>imageUrl\<close> equal the previous one.
\<close>

theorem C10_put_route_keeps_image:
  "req_file (express_request i) = None
   \<and> \<not> list_ex media_call (snd (snd (router_put e db i)))
   \<and> (status (fst (router_put e db i)) = 200 \<longrightarrow>
        (\<exists>old new pj.
           find (\<lambda>p. productId p = in_productId i) (Products db) = Some old \<and>
           find (\<lambda>p. productId p = in_productId i)
             (Products (fst (snd (router_put e db i)))) = Some new \<and>
           imageUrl new = imageUrl old \<and>
           json (fst (router_put e db i)) = ProductJson pj \<and> imageUrl pj = imageUrl old))"
proof -
  have nofile: "req_file (express_request i) = None"
    by (simp add: express_request_def)
  have pid: "params_productId (express_request i) = in_productId i"
    by (simp add: express_request_def)
  have B: "\<not> list_ex media_call (snd (snd (router_put e db i)))"
    unfolding router_put_def by (rule updateProduct_no_file_calls [OF nofile])
  have C: "status (fst (router_put e db i)) = 200 \<longrightarrow>
        (\<exists>old new pj.
           find (\<lambda>p. productId p = in_productId i) (Products db) = Some old \<and>
           find (\<lambda>p. productId p = in_productId i)
             (Products (fst (snd (router_put e db i)))) = Some new \<and>
           imageUrl new = imageUrl old \<and>
           json (fst (router_put e db i)) = ProductJson pj \<and> imageUrl pj = imageUrl old)"
  proof
    assume ok: "status (fst (router_put e db i)) = 200"
    obtain res db' cs where r: "updateProduct e db (express_request i) = (res, db', cs)"
      by (cases "updateProduct e db (express_request i)")
    from ok have s: "status res = 200"
      by (simp add: router_put_def r)
    from updateProduct_no_file_200 [OF nofile r s]
    show "\<exists>old new pj.
           find (\<lambda>p. productId p = in_productId i) (Products db) = Some old \<and>
           find (\<lambda>p. productId p = in_productId i)
             (Products (fst (snd (router_put e db i)))) = Some new \<and>
           imageUrl new = imageUrl old \<and>
           json (fst (router_put e db i)) = ProductJson pj \<and> imageUrl pj = imageUrl old"
      by (simp add: router_put_def r pid)
  qed
  show ?thesis
    by (intro conjI, fact nofile, fact B, fact C)
qed

theorem C10_witness:
  "status (fst (router_put example_env example_db example_incoming)) = 200
   \<and> (\<exists>new. find (\<lambda>p. productId p = ''p1'')
               (Products (fst (snd (router_put example_env example_db example_incoming)))) = Some new
            \<and> imageUrl new = Some ''https://h/v1/products/abc.jpg'')
   \<and> \<not> list_ex media_call (snd (snd (router_put example_env example_db example_incoming)))"
proof -
  let ?r = "router_put example_env example_db example_incoming"
  note c10 = C10_put_route_keeps_image [of example_incoming example_env example_db]
  have ok: "status (fst ?r) = 200"
    by (simp add: router_put_def updateProduct_def update_row_def prisma_products_findUnique_def
          prisma_products_update_def updated_name_def express_request_def Let_def
          example_env_def example_db_def example_incoming_def example_product_def
          example_category_def)
  have old: "find (\<lambda>p. productId p = in_productId example_incoming) (Products example_db) =
               Some (example_product ''p1'' (Some ''https://h/v1/products/abc.jpg'') 1790000000000)"
    by (simp add: example_db_def example_incoming_def example_product_def)
  from c10 have B: "\<not> list_ex media_call (snd (snd ?r))"
    by (elim conjE)
  from c10 have "status (fst ?r) = 200 \<longrightarrow>
        (\<exists>old new pj.
           find (\<lambda>p. productId p = in_productId example_incoming) (Products example_db) = Some old \<and>
           find (\<lambda>p. productId p = in_productId example_incoming)
             (Products (fst (snd ?r))) = Some new \<and>
           imageUrl new = imageUrl old \<and>
           json (fst ?r) = ProductJson pj \<and> imageUrl pj = imageUrl old)"
    by (elim conjE)
  with ok obtain old' new pj where
    "find (\<lambda>p. productId p = in_productId example_incoming) (Products example_db) = Some old'"
    and new: "find (\<lambda>p. productId p = in_productId example_incoming)
             (Products (fst (snd ?r))) = Some new"
    and eq: "imageUrl new = imageUrl old'"
    by blast
  with old have "imageUrl new = Some ''https://h/v1/products/abc.jpg''"
    by (simp add: example_product_def)
  with new have "\<exists>new. find (\<lambda>p. productId p = ''p1'') (Products (fst (snd ?r))) = Some new
            \<and> imageUrl new = Some ''https://h/v1/products/abc.jpg''"
    by (simp add: example_incoming_def)
  with ok B show ?thesis by simp
qed

end
